theory Spec2Isabelle
  imports Main
begin

unbundle bit_operations_syntax

section \<open>The binary manager's file operations (binary\_manager\_binfile.c)\<close>

text \<open>
  A shallow embedding of \<^verbatim>\<open>os/kernel/binary_manager/binary_manager_binfile.c\<close>:
  \<^verbatim>\<open>binary_manager_clear_binfile\<close>, \<^verbatim>\<open>binary_manager_scan_ubin\<close> and
  \<^verbatim>\<open>binary_manager_create_entry\<close>. C strings are \<open>string\<close>s without the terminating
  NUL, a \<^verbatim>\<open>char *\<close> that may be \<^verbatim>\<open>NULL\<close> is a \<open>string option\<close>, C \<^verbatim>\<open>int\<close>s are
  \<open>int\<close> (the file does no arithmetic on them besides one XOR and comparisons), and the
  global state the functions touch (binary table, kernel partition data, file system,
  response queues) is passed explicitly.
\<close>

subsection \<open>Constants of the headers\<close>

text \<open>
  The macros come from \<^verbatim>\<open>tinyara/binary_manager.h\<close>, \<^verbatim>\<open>binary_manager.h\<close> and the
  board configuration, which are not part of the translated file. They are parameters
  of the model. \<open>BINMGR_DEVNAME_FMT\<close> is a format string; it is applied to the two
  arguments the source passes to it. The last two fields are parameters of the binary
  table, described below.
\<close>

record binmgr_config =
  BINARY_DIR_PATH :: string
  NAME_MAX :: nat
  CONFIG_PATH_MAX :: nat
  BIN_NAME_MAX :: nat
  BIN_PRIVMQ_LEN :: nat
  BINMGR_RESPONSE_MQ_PREFIX :: string
  BINMGR_DEVNAME_FMT :: "int \<Rightarrow> int \<Rightarrow> string"
  BINMGR_OK :: int
  BINMGR_OPERATION_FAIL :: int
  BINMGR_INVALID_PARAM :: int
  BINMGR_NOT_FOUND :: int
  BINMGR_ALREADY_UPDATED :: int
  fresh_version :: int
  register_refused :: "string list \<Rightarrow> string \<Rightarrow> bool"

subsection \<open>The C string functions the file uses\<close>

text \<open>
  \<^verbatim>\<open>snprintf(buf, n, ...)\<close> stores at most \<open>n - 1\<close> characters of the formatted text.
\<close>

definition snprintf :: "nat \<Rightarrow> string \<Rightarrow> string" where
  "snprintf n s = take (n - 1) s"

definition strlen :: "string \<Rightarrow> nat" where
  "strlen s = length s"

text \<open>
  \<^verbatim>\<open>strncmp\<close> compares at most \<open>n\<close> characters as unsigned bytes; the end of a string
  is its NUL, smaller than every character. C fixes only the sign of the result.
\<close>

fun strncmp :: "string \<Rightarrow> string \<Rightarrow> nat \<Rightarrow> int" where
  "strncmp a b 0 = 0"
| "strncmp [] [] (Suc n) = 0"
| "strncmp [] (y # ys) (Suc n) = - 1"
| "strncmp (x # xs) [] (Suc n) = 1"
| "strncmp (x # xs) (y # ys) (Suc n) =
     (if x = y then strncmp xs ys n
      else if (of_char x :: nat) < of_char y then - 1 else 1)"

text \<open>\<^verbatim>\<open>s[i]\<close> for \<open>i \<le> strlen s\<close>: the character, or the terminating NUL.\<close>

definition char_at :: "string \<Rightarrow> nat \<Rightarrow> char" where
  "char_at s i = (if i < length s then s ! i else CHR 0x00)"

text \<open>The conversion \<^verbatim>\<open>%d\<close>.\<close>

fun fmt_u :: "nat \<Rightarrow> string" where
  "fmt_u n =
     (if n < 10 then [''0123456789'' ! n]
      else fmt_u (n div 10) @ [''0123456789'' ! (n mod 10)])"

declare fmt_u.simps [simp del]

definition fmt_d :: "int \<Rightarrow> string" where
  "fmt_d i = (if i < 0 then CHR ''-'' # fmt_u (nat (- i)) else fmt_u (nat i))"

subsection \<open>The directory of user binaries\<close>

text \<open>
  The system calls are not code of the binary manager. The model describes the one
  directory the file works on, \<open>BINARY_DIR_PATH\<close>: whether it exists and, if so, its
  entries in the order \<^verbatim>\<open>readdir\<close> returns them. A path names an entry of the directory
  when it is \<open>BINARY_DIR_PATH/name\<close> with a non-empty \<open>name\<close> free of slashes. Any
  other path (a name with a slash in it, a path cut short) is followed by the real calls
  to some other place of the file system, which the model does not describe: what
  \<^verbatim>\<open>open\<close> and \<^verbatim>\<open>unlink\<close> do there is the parameter \<open>other\<close>, which says for the
  state of the directory and the call whether it fails, and with which error, or
  succeeds, and in which state it leaves the directory. (\<^verbatim>\<open>opendir\<close> and \<^verbatim>\<open>mkdir\<close> are
  only ever called on \<open>BINARY_DIR_PATH\<close>.) The failures the source distinguishes can be
  injected: a fault field that is set makes the call fail with that error where it would
  have succeeded.
  \<open>next_fd\<close> is the descriptor \<^verbatim>\<open>open\<close> hands out next, \<open>errno\<close> the C variable, and
  \<open>calls\<close> the log of the calls made so far. \<open>headers\<close> is what
  \<^verbatim>\<open>binary_manager_read_header\<close> (another file of the binary manager) parses at a
  path: \<open>None\<close> when it returns a negative value.
\<close>

datatype dtype = DTYPE_FILE | DTYPE_CHR | DTYPE_BLK | DTYPE_DIRECTORY

record dirent =
  d_name :: string
  d_type :: dtype

definition DIRENT_ISFILE :: "dtype \<Rightarrow> bool" where
  "DIRENT_ISFILE t = (t = DTYPE_FILE)"

datatype errno_t = ENOENT | EEXIST | EACCES | EIO | ENOSPC | EISDIR | ENOMEM

datatype syscall =
  Opendir string | Unlink string | Open string | Close int | Mkdir string

record binary_header_t =
  bin_name :: string
  bin_ver :: int

record filesys =
  store :: "dirent list option"
  headers :: "string \<Rightarrow> binary_header_t option"
  opendir_fault :: "errno_t option"
  open_fault :: "errno_t option"
  mkdir_fault :: "errno_t option"
  unlink_fault :: "errno_t option"
  other :: "dirent list option \<Rightarrow> syscall \<Rightarrow> errno_t + dirent list option"
  next_fd :: int
  errno :: errno_t
  calls :: "syscall list"

definition entry_of_path :: "binmgr_config \<Rightarrow> string \<Rightarrow> string option" where
  "entry_of_path cfg p =
     (let d = BINARY_DIR_PATH cfg @ ''/''; n = drop (length d) p in
      if take (length d) p = d \<and> n \<noteq> [] \<and> CHR ''/'' \<notin> set n then Some n else None)"

definition sys_fail :: "errno_t \<Rightarrow> filesys \<Rightarrow> filesys" where
  "sys_fail e f = f\<lparr>errno := e\<rparr>"

definition sys_log :: "syscall \<Rightarrow> filesys \<Rightarrow> filesys" where
  "sys_log c f = f\<lparr>calls := calls f @ [c]\<rparr>"

text \<open>\<^verbatim>\<open>opendir(path)\<close>: the entries, or \<open>None\<close> for \<^verbatim>\<open>NULL\<close> with \<open>errno\<close> set.\<close>

definition sys_opendir ::
  "binmgr_config \<Rightarrow> string \<Rightarrow> filesys \<Rightarrow> dirent list option \<times> filesys" where
  "sys_opendir cfg p f0 =
     (let f = sys_log (Opendir p) f0 in
      if p \<noteq> BINARY_DIR_PATH cfg then (None, sys_fail ENOENT f)
      else case store f of
        None \<Rightarrow> (None, sys_fail ENOENT f)
      | Some ents \<Rightarrow>
          (case opendir_fault f of
             Some e \<Rightarrow> (None, sys_fail e f)
           | None \<Rightarrow> (Some ents, f)))"

text \<open>\<^verbatim>\<open>unlink(path)\<close> removes a regular file; the result is 0 or -1.\<close>

definition sys_unlink :: "binmgr_config \<Rightarrow> string \<Rightarrow> filesys \<Rightarrow> int \<times> filesys" where
  "sys_unlink cfg p f0 =
     (let f = sys_log (Unlink p) f0 in
      case entry_of_path cfg p of
        None \<Rightarrow>
          (case other f (store f) (Unlink p) of
             Inl er \<Rightarrow> (- 1, sys_fail er f)
           | Inr d \<Rightarrow> (0, f\<lparr>store := d\<rparr>))
      | Some n \<Rightarrow>
          (case store f of
             None \<Rightarrow> (- 1, sys_fail ENOENT f)
           | Some ents \<Rightarrow>
               (case find (\<lambda>e. d_name e = n) ents of
                  None \<Rightarrow> (- 1, sys_fail ENOENT f)
                | Some e \<Rightarrow>
                    if d_type e = DTYPE_DIRECTORY then (- 1, sys_fail EISDIR f)
                    else (case unlink_fault f of
                            Some er \<Rightarrow> (- 1, sys_fail er f)
                          | None \<Rightarrow>
                              (0, f\<lparr>store := Some (filter (\<lambda>e. d_name e \<noteq> n) ents)\<rparr>)))))"

text \<open>
  \<^verbatim>\<open>open(path, O_RDWR | O_CREAT, 0666)\<close>: the new descriptor, or -1. An existing entry
  is opened as it is; a missing one is created as an empty regular file.
\<close>

definition sys_open :: "binmgr_config \<Rightarrow> string \<Rightarrow> filesys \<Rightarrow> int \<times> filesys" where
  "sys_open cfg p f0 =
     (let f = sys_log (Open p) f0 in
      case entry_of_path cfg p of
        None \<Rightarrow>
          (case other f (store f) (Open p) of
             Inl er \<Rightarrow> (- 1, sys_fail er f)
           | Inr d \<Rightarrow> (next_fd f, f\<lparr>store := d, next_fd := next_fd f + 1\<rparr>))
      | Some n \<Rightarrow>
          (case store f of
             None \<Rightarrow> (- 1, sys_fail ENOENT f)
           | Some ents \<Rightarrow>
               (case open_fault f of
                  Some er \<Rightarrow> (- 1, sys_fail er f)
                | None \<Rightarrow>
                    (case find (\<lambda>e. d_name e = n) ents of
                       Some e \<Rightarrow>
                         if d_type e = DTYPE_DIRECTORY then (- 1, sys_fail EISDIR f)
                         else (next_fd f, f\<lparr>next_fd := next_fd f + 1\<rparr>)
                     | None \<Rightarrow>
                         (next_fd f,
                          f\<lparr>store := Some (ents @ [\<lparr>d_name = n, d_type = DTYPE_FILE\<rparr>]),
                            next_fd := next_fd f + 1\<rparr>)))))"

definition sys_close :: "int \<Rightarrow> filesys \<Rightarrow> filesys" where
  "sys_close fd f0 =
     (let f = sys_log (Close fd) f0 in
      if 0 \<le> fd \<and> fd < next_fd f then f\<lparr>next_fd := fd\<rparr> else f)"

text \<open>\<^verbatim>\<open>mkdir(path, 0777)\<close>: 0 (\<^verbatim>\<open>OK\<close>) or -1.\<close>

definition sys_mkdir :: "binmgr_config \<Rightarrow> string \<Rightarrow> filesys \<Rightarrow> int \<times> filesys" where
  "sys_mkdir cfg p f0 =
     (let f = sys_log (Mkdir p) f0 in
      if p \<noteq> BINARY_DIR_PATH cfg then (- 1, sys_fail ENOENT f)
      else case store f of
        Some ents \<Rightarrow> (- 1, sys_fail EEXIST f)
      | None \<Rightarrow>
          (case mkdir_fault f of
             Some er \<Rightarrow> (- 1, sys_fail er f)
           | None \<Rightarrow> (0, f\<lparr>store := Some []\<rparr>)))"

text \<open>
  Modelled from the spec: \<^verbatim>\<open>binary_manager_read_header\<close> is missing from the sources.
  The specification gives its interface only: from a path, the parsed header with the
  binary's name and version, or an error. What it parses is the field \<open>headers\<close>.
\<close>

definition binary_manager_read_header :: "filesys \<Rightarrow> string \<Rightarrow> binary_header_t option" where
  "binary_manager_read_header f filepath = headers f filepath"

subsection \<open>The binary table\<close>

text \<open>
  The table, its macros and its functions are not part of the translated file. A slot
  has the fields the specification gives a BinarySlot; the macros \<^verbatim>\<open>BIN_NAME\<close> and
  \<^verbatim>\<open>BIN_VER\<close> read the name and the version of the slot at an index.
\<close>

datatype bin_kind = Kernel | User

record binary_slot =
  slot_name :: string
  slot_kind :: bin_kind
  slot_ver :: int

definition BIN_NAME :: "binary_slot list \<Rightarrow> int \<Rightarrow> string" where
  "BIN_NAME tbl bin_idx = slot_name (tbl ! nat bin_idx)"

definition BIN_VER :: "binary_slot list \<Rightarrow> int \<Rightarrow> int" where
  "BIN_VER tbl bin_idx = slot_ver (tbl ! nat bin_idx)"

text \<open>
  Modelled from the spec: \<^verbatim>\<open>binary_manager_get_index_with_name\<close> is missing from the
  sources. The specification says that it looks the name up in the Binary Registry,
  where names are unique. The result is the index of the slot of that name, negative
  when there is none.
\<close>

fun binary_manager_get_index_with_name :: "binary_slot list \<Rightarrow> string \<Rightarrow> int" where
  "binary_manager_get_index_with_name [] n = - 1"
| "binary_manager_get_index_with_name (b # bs) n =
     (if slot_name b = n then 0
      else (let i = binary_manager_get_index_with_name bs n in
            if i < 0 then - 1 else i + 1))"

text \<open>
  Modelled from the spec: \<^verbatim>\<open>binary_manager_register_ubin\<close> is missing from the sources.
  The specification says that a binary that is not already present is registered with
  kind User, that an existing slot is never removed or altered, and that registration
  can fail. It receives the name only, so the version of a new slot is a constant
  \<open>fresh_version\<close>; when it fails is left open (\<open>register_refused\<close>, on the names
  registered so far and the new name). The result is the slot's index, negative on
  failure.
\<close>

definition binary_manager_register_ubin ::
  "binmgr_config \<Rightarrow> string \<Rightarrow> binary_slot list \<Rightarrow> int \<times> binary_slot list" where
  "binary_manager_register_ubin cfg n tbl =
     (let i = binary_manager_get_index_with_name tbl n in
      if 0 \<le> i then (i, tbl)
      else if register_refused cfg (map slot_name tbl) n then (- 1, tbl)
      else (int (length tbl),
            tbl @ [\<lparr>slot_name = n, slot_kind = User, slot_ver = fresh_version cfg\<rparr>]))"

subsection \<open>Kernel partitions and responses\<close>

record part_info_t =
  part_num :: int

record binmgr_kinfo_t =
  part_count :: int
  inuse_idx :: int
  part_info :: "part_info_t list"

text \<open>
  \<open>binpath\<close> is \<open>None\<close> while the buffer has not been written: the source sends the
  response with the buffer as it found it on the stack.
\<close>

record binmgr_createbin_response_t =
  result :: int
  binpath :: "string option"

text \<open>
  \<open>outbox\<close> lists the responses sent, in order: the name of the queue and the message.
\<close>

record binmgr_state =
  registry :: "binary_slot list"
  kdata :: binmgr_kinfo_t
  fs :: filesys
  outbox :: "(string \<times> binmgr_createbin_response_t) list"

text \<open>
  Modelled from the spec: \<^verbatim>\<open>binary_manager_get_kdata\<close> is missing from the sources. It
  gives the Partition Catalog of the specification: the number of kernel partitions,
  their device numbers and the index of the one in use.
\<close>

definition binary_manager_get_kdata :: "binmgr_state \<Rightarrow> binmgr_kinfo_t" where
  "binary_manager_get_kdata s = kdata s"

text \<open>
  Modelled from the spec: \<^verbatim>\<open>binary_manager_send_response\<close> is missing from the sources.
  The specification treats the transport as an opaque addressed channel; a call delivers
  the message to the queue of the given name. (The third argument of the source, the
  size of the message, has no counterpart.)
\<close>

definition binary_manager_send_response ::
  "string \<Rightarrow> binmgr_createbin_response_t \<Rightarrow> binmgr_state \<Rightarrow> binmgr_state" where
  "binary_manager_send_response q_name response_msg s =
     s\<lparr>outbox := outbox s @ [(q_name, response_msg)]\<rparr>"

subsection \<open>binary\_manager\_clear\_binfile\<close>

text \<open>
  The condition of line 69 and 70, with C's short-circuit evaluation: the index
  \<open>name_len\<close> is read only when the first \<open>name_len\<close> characters are those of the name.
\<close>

definition clear_cond :: "string \<Rightarrow> string \<Rightarrow> dirent \<Rightarrow> bool" where
  "clear_cond name running_file entryp =
     (let name_len = strlen name in
      DIRENT_ISFILE (d_type entryp)
      \<and> strncmp (d_name entryp) name name_len = 0
      \<and> char_at (d_name entryp) name_len = CHR ''_''
      \<and> strncmp (d_name entryp) running_file (strlen running_file) \<noteq> 0)"

text \<open>
  The \<^verbatim>\<open>readdir\<close> loop runs over the entries the directory had when it was opened;
  the result of \<^verbatim>\<open>unlink\<close> is not looked at.
\<close>

fun clear_loop ::
  "binmgr_config \<Rightarrow> string \<Rightarrow> string \<Rightarrow> dirent list \<Rightarrow> filesys \<Rightarrow> filesys" where
  "clear_loop cfg name running_file [] f = f"
| "clear_loop cfg name running_file (entryp # rest) f =
     clear_loop cfg name running_file rest
       (if clear_cond name running_file entryp
        then snd (sys_unlink cfg
                    (snprintf (NAME_MAX cfg) (BINARY_DIR_PATH cfg @ ''/'' @ d_name entryp)) f)
        else f)"

definition binary_manager_clear_binfile ::
  "binmgr_config \<Rightarrow> binary_slot list \<Rightarrow> int \<Rightarrow> filesys \<Rightarrow> int \<times> filesys" where
  "binary_manager_clear_binfile cfg tbl bin_idx f0 =
     (let running_file =
            snprintf (NAME_MAX cfg) (BIN_NAME tbl bin_idx @ ''_'' @ fmt_d (BIN_VER tbl bin_idx));
          name = BIN_NAME tbl bin_idx
      in case sys_opendir cfg (BINARY_DIR_PATH cfg) f0 of
           (Some ents, f) \<Rightarrow> (BINMGR_OK cfg, clear_loop cfg name running_file ents f)
         | (None, f) \<Rightarrow>
             if errno f \<noteq> ENOENT then (BINMGR_OPERATION_FAIL cfg, f)
             else (BINMGR_OK cfg, f))"

subsection \<open>binary\_manager\_scan\_ubin\<close>

fun scan_loop ::
  "binmgr_config \<Rightarrow> filesys \<Rightarrow> dirent list \<Rightarrow> binary_slot list \<Rightarrow> binary_slot list" where
  "scan_loop cfg f [] tbl = tbl"
| "scan_loop cfg f (entryp # rest) tbl =
     scan_loop cfg f rest
       (if DIRENT_ISFILE (d_type entryp) then
          (case binary_manager_read_header f
                  (snprintf (CONFIG_PATH_MAX cfg) (BINARY_DIR_PATH cfg @ ''/'' @ d_name entryp)) of
             None \<Rightarrow> tbl
           | Some header_data \<Rightarrow>
               snd (binary_manager_register_ubin cfg (bin_name header_data) tbl))
        else tbl)"

definition binary_manager_scan_ubin :: "binmgr_config \<Rightarrow> binmgr_state \<Rightarrow> binmgr_state" where
  "binary_manager_scan_ubin cfg s =
     (case sys_opendir cfg (BINARY_DIR_PATH cfg) (fs s) of
        (Some ents, f) \<Rightarrow> s\<lparr>registry := scan_loop cfg f ents (registry s), fs := f\<rparr>
      | (None, f) \<Rightarrow> s\<lparr>fs := f\<rparr>)"

subsection \<open>binary\_manager\_create\_entry\<close>

text \<open>The label \<^verbatim>\<open>send_result\<close> (lines 210 to 214).\<close>

definition q_name_of :: "binmgr_config \<Rightarrow> int \<Rightarrow> string" where
  "q_name_of cfg requester_pid =
     snprintf (BIN_PRIVMQ_LEN cfg) (BINMGR_RESPONSE_MQ_PREFIX cfg @ fmt_d requester_pid)"

definition send_result ::
  "binmgr_config \<Rightarrow> int \<Rightarrow> binmgr_createbin_response_t \<Rightarrow> binmgr_state \<Rightarrow> int \<times> binmgr_state" where
  "send_result cfg requester_pid response_msg s =
     (result response_msg,
      binary_manager_send_response (q_name_of cfg requester_pid) response_msg s)"

text \<open>
  The device name line 157 formats for the partition at index \<open>i\<close> of \<open>part_info\<close>.
\<close>

definition devname_of :: "binmgr_config \<Rightarrow> binmgr_kinfo_t \<Rightarrow> nat \<Rightarrow> string" where
  "devname_of cfg kerinfo i =
     snprintf (CONFIG_PATH_MAX cfg)
       (BINMGR_DEVNAME_FMT cfg (part_num (part_info kerinfo ! i)) (int (CONFIG_PATH_MAX cfg)))"

text \<open>
  Line 157 takes the partition at \<open>inuse_idx ^ 1\<close>. Reading \<open>part_info\<close> outside the
  array is undefined in C; the model leaves the buffer unwritten there.
\<close>

definition kernel_devname :: "binmgr_config \<Rightarrow> binmgr_kinfo_t \<Rightarrow> string option" where
  "kernel_devname cfg kerinfo =
     (let i = inuse_idx kerinfo XOR 1 in
      if 0 \<le> i \<and> nat i < length (part_info kerinfo) then Some (devname_of cfg kerinfo (nat i))
      else None)"

text \<open>The path of the new file (line 190).\<close>

definition new_filepath :: "binmgr_config \<Rightarrow> string \<Rightarrow> int \<Rightarrow> string" where
  "new_filepath cfg name version =
     snprintf (CONFIG_PATH_MAX cfg)
       (BINARY_DIR_PATH cfg @ ''/'' @ name @ ''_'' @ fmt_d version)"

text \<open>
  Creating the file (lines 187 to 209). \<^verbatim>\<open>strncpy\<close> copies the whole path: it is
  shorter than \<open>CONFIG_PATH_MAX\<close>.
\<close>

definition create_file ::
  "binmgr_config \<Rightarrow> string \<Rightarrow> int \<Rightarrow> filesys \<Rightarrow> binmgr_createbin_response_t \<times> filesys" where
  "create_file cfg name version f0 =
     (let filepath = new_filepath cfg name version;
          failed = \<lparr>result = BINMGR_OPERATION_FAIL cfg, binpath = None\<rparr>;
          created = \<lparr>result = BINMGR_OK cfg, binpath = Some filepath\<rparr>;
          (fd, f1) = sys_open cfg filepath f0
      in if fd > 0 then (created, sys_close fd f1)
         else if errno f1 = ENOENT then
           (let (ret, f2) = sys_mkdir cfg (BINARY_DIR_PATH cfg) f1 in
            if ret = 0 then
              (let (fd2, f3) = sys_open cfg filepath f2 in
               if fd2 > 0 then (created, sys_close fd2 f3) else (failed, f3))
            else (failed, f2))
         else (failed, f1))"

text \<open>
  \<^verbatim>\<open>bin_name\<close> is \<open>None\<close> for a \<^verbatim>\<open>NULL\<close> pointer. The three tests of line 146 lead
  to the same branch, so their order does not show.
\<close>

definition binary_manager_create_entry ::
  "binmgr_config \<Rightarrow> int \<Rightarrow> string option \<Rightarrow> int \<Rightarrow> binmgr_state \<Rightarrow> int \<times> binmgr_state" where
  "binary_manager_create_entry cfg requester_pid bin_name_ptr version s =
     (case bin_name_ptr of
        None \<Rightarrow>
          send_result cfg requester_pid
            \<lparr>result = BINMGR_INVALID_PARAM cfg, binpath = None\<rparr> s
      | Some name \<Rightarrow>
          if requester_pid < 0 \<or> version < 0 then
            send_result cfg requester_pid
              \<lparr>result = BINMGR_INVALID_PARAM cfg, binpath = None\<rparr> s
          else if strncmp ''kernel'' name (BIN_NAME_MAX cfg) = 0 then
            (let kerinfo = binary_manager_get_kdata s in
             if part_count kerinfo > 1 then
               send_result cfg requester_pid
                 \<lparr>result = BINMGR_OK cfg, binpath = kernel_devname cfg kerinfo\<rparr> s
             else
               send_result cfg requester_pid
                 \<lparr>result = BINMGR_NOT_FOUND cfg, binpath = None\<rparr> s)
          else
            (let bin_idx = binary_manager_get_index_with_name (registry s) name in
             if bin_idx \<ge> 0 then
               if BIN_VER (registry s) bin_idx = version then
                 send_result cfg requester_pid
                   \<lparr>result = BINMGR_ALREADY_UPDATED cfg, binpath = None\<rparr> s
               else
                 (let (ret, f1) = binary_manager_clear_binfile cfg (registry s) bin_idx (fs s) in
                  if ret < 0 then
                    send_result cfg requester_pid \<lparr>result = ret, binpath = None\<rparr>
                      (s\<lparr>fs := f1\<rparr>)
                  else
                    (let (response_msg, f2) = create_file cfg name version f1 in
                     send_result cfg requester_pid response_msg (s\<lparr>fs := f2\<rparr>)))
             else
               (let (ret, tbl) = binary_manager_register_ubin cfg name (registry s) in
                if ret < 0 then
                  send_result cfg requester_pid
                    \<lparr>result = BINMGR_OPERATION_FAIL cfg, binpath = None\<rparr>
                    (s\<lparr>registry := tbl\<rparr>)
                else
                  (let (response_msg, f2) = create_file cfg name version (fs s) in
                   send_result cfg requester_pid response_msg
                     (s\<lparr>registry := tbl, fs := f2\<rparr>)))))"

subsection \<open>Reading the log of calls\<close>

text \<open>The calls that create something: \<^verbatim>\<open>open\<close> with \<^verbatim>\<open>O_CREAT\<close> and \<^verbatim>\<open>mkdir\<close>.\<close>

definition creation_calls :: "syscall list \<Rightarrow> syscall list" where
  "creation_calls cs =
     filter (\<lambda>c. case c of Open p \<Rightarrow> True | Mkdir p \<Rightarrow> True | _ \<Rightarrow> False) cs"

subsection \<open>A configuration and states to run the functions on\<close>

text \<open>
  The values are examples: the theorems below hold for every configuration and state
  that meets their hypotheses, and these serve to show that the hypotheses can be met.
  In the file system \<open>fs0\<close> no call fails by injection, and a call on a path outside
  the directory finds nothing there.
\<close>

definition cfg0 :: binmgr_config where
  "cfg0 = \<lparr>BINARY_DIR_PATH = ''/mnt/bins'', NAME_MAX = 32, CONFIG_PATH_MAX = 64,
           BIN_NAME_MAX = 16, BIN_PRIVMQ_LEN = 16,
           BINMGR_RESPONSE_MQ_PREFIX = ''bm_priv'',
           BINMGR_DEVNAME_FMT = (\<lambda>n w. ''/dev/mtdblock'' @ fmt_d n),
           BINMGR_OK = 0, BINMGR_OPERATION_FAIL = - 2, BINMGR_INVALID_PARAM = - 4,
           BINMGR_NOT_FOUND = - 8, BINMGR_ALREADY_UPDATED = - 10,
           fresh_version = - 1, register_refused = (\<lambda>names n. False)\<rparr>"

definition file_entry :: "string \<Rightarrow> dirent" where
  "file_entry n = \<lparr>d_name = n, d_type = DTYPE_FILE\<rparr>"

definition fs0 :: "dirent list option \<Rightarrow> filesys" where
  "fs0 d = \<lparr>store = d, headers = (\<lambda>p. None), opendir_fault = None, open_fault = None,
            mkdir_fault = None, unlink_fault = None, other = (\<lambda>d c. Inl ENOENT),
            next_fd = 3, errno = EIO, calls = []\<rparr>"

definition kdata0 :: "int \<Rightarrow> int \<Rightarrow> binmgr_kinfo_t" where
  "kdata0 n i = \<lparr>part_count = n, inuse_idx = i,
                 part_info = [\<lparr>part_num = 4\<rparr>, \<lparr>part_num = 7\<rparr>]\<rparr>"

definition state0 :: "binary_slot list \<Rightarrow> filesys \<Rightarrow> binmgr_state" where
  "state0 tbl f = \<lparr>registry = tbl, kdata = kdata0 2 0, fs = f, outbox = []\<rparr>"

definition user_slot :: "string \<Rightarrow> int \<Rightarrow> binary_slot" where
  "user_slot n v = \<lparr>slot_name = n, slot_kind = User, slot_ver = v\<rparr>"

text \<open>
  A directory with the file \<open>a_1\<close>, whose header names the binary \<open>a\<close> with version
  \<open>v\<close>, and one with the files \<open>a_1\<close> and \<open>a_2\<close> of the versions 1 and 2 of \<open>a\<close>.
\<close>

definition fs_hdr :: "int \<Rightarrow> filesys" where
  "fs_hdr v = (fs0 (Some [file_entry ''a_1'']))
     \<lparr>headers := map_of [(''/mnt/bins/a_1'', \<lparr>bin_name = ''a'', bin_ver = v\<rparr>)]\<rparr>"

definition fs_a12 :: filesys where
  "fs_a12 = (fs0 (Some [file_entry ''a_1'', file_entry ''a_2'']))
     \<lparr>headers := map_of [(''/mnt/bins/a_1'', \<lparr>bin_name = ''a'', bin_ver = 1\<rparr>),
                         (''/mnt/bins/a_2'', \<lparr>bin_name = ''a'', bin_ver = 2\<rparr>)]\<rparr>"

text \<open>
  The configuration with a binary table of \<open>k\<close> slots: registration is refused when
  the table is full.
\<close>

definition cfg_cap :: "nat \<Rightarrow> binmgr_config" where
  "cfg_cap k = cfg0\<lparr>register_refused := (\<lambda>names n. k \<le> length names)\<rparr>"

section \<open>Properties\<close>

lemma strncmp_eq_0_iff: "strncmp a b n = 0 \<longleftrightarrow> take n a = take n b"
  by (induction a b n rule: strncmp.induct) auto

subsection \<open>Every path of binary\_manager\_create\_entry ends in send\_result\<close>

lemma create_entry_response:
  "\<exists>response_msg.
     outbox (snd (binary_manager_create_entry cfg requester_pid bin_name_ptr version s))
       = outbox s @ [(q_name_of cfg requester_pid, response_msg)]
     \<and> fst (binary_manager_create_entry cfg requester_pid bin_name_ptr version s)
       = result response_msg"
  unfolding binary_manager_create_entry_def Let_def send_result_def
    binary_manager_send_response_def
  by (simp split: option.split prod.split)

text \<open>
  Claim C2. Whatever the request and the state, and so on every path and for every
  result code, \<^verbatim>\<open>binary_manager_create_entry\<close> calls
  \<^verbatim>\<open>binary_manager_send_response\<close> exactly once: the list of responses sent grows by
  one message, and its queue is \<open>q_name_of cfg requester_pid\<close>, a function of the
  requester's pid and of constants only.
\<close>

theorem create_entry_sends_one_response:
  "\<exists>response_msg.
     outbox (snd (binary_manager_create_entry cfg requester_pid bin_name_ptr version s))
       = outbox s @ [(q_name_of cfg requester_pid, response_msg)]"
  using create_entry_response [of cfg requester_pid bin_name_ptr version s] by blast

text \<open>
  Claim C10. The value \<^verbatim>\<open>binary_manager_create_entry\<close> returns is the \<open>result\<close> field
  of the one response it sends.
\<close>

theorem create_entry_returns_sent_result:
  "\<exists>q response_msg.
     outbox (snd (binary_manager_create_entry cfg requester_pid bin_name_ptr version s))
       = outbox s @ [(q, response_msg)]
     \<and> fst (binary_manager_create_entry cfg requester_pid bin_name_ptr version s)
       = result response_msg"
  using create_entry_response [of cfg requester_pid bin_name_ptr version s] by blast

subsection \<open>Rejected requests\<close>

text \<open>
  Claim C3, as the source has it. A request with a negative requester pid, a \<^verbatim>\<open>NULL\<close>
  name or a negative version is answered with \<open>BINMGR_INVALID_PARAM\<close>; the state after
  the call is the state before it with the response added, so no system call was made
  and the binary table is as it was. The test of line 146 is on the pointer: an empty
  name is not rejected.
\<close>

theorem create_entry_invalid_param:
  assumes "requester_pid < 0 \<or> bin_name_ptr = None \<or> version < 0"
  shows "binary_manager_create_entry cfg requester_pid bin_name_ptr version s =
           (BINMGR_INVALID_PARAM cfg,
            s\<lparr>outbox := outbox s @
                 [(q_name_of cfg requester_pid,
                   \<lparr>result = BINMGR_INVALID_PARAM cfg, binpath = None\<rparr>)]\<rparr>)"
  using assms
  by (auto simp: binary_manager_create_entry_def send_result_def
      binary_manager_send_response_def split: option.splits)

theorem create_entry_invalid_param_witness:
  "binary_manager_create_entry cfg0 (- 1) (Some ''app'') 1 (state0 [] (fs0 None)) =
     (- 4, \<lparr>registry = [], kdata = kdata0 2 0, fs = fs0 None,
            outbox = [(''bm_priv-1'', \<lparr>result = - 4, binpath = None\<rparr>)]\<rparr>)
   \<and> binary_manager_create_entry cfg0 5 None 1 (state0 [] (fs0 None)) =
     (- 4, \<lparr>registry = [], kdata = kdata0 2 0, fs = fs0 None,
            outbox = [(''bm_priv5'', \<lparr>result = - 4, binpath = None\<rparr>)]\<rparr>)
   \<and> binary_manager_create_entry cfg0 5 (Some ''app'') (- 1) (state0 [] (fs0 None)) =
     (- 4, \<lparr>registry = [], kdata = kdata0 2 0, fs = fs0 None,
            outbox = [(''bm_priv5'', \<lparr>result = - 4, binpath = None\<rparr>)]\<rparr>)"
  using create_entry_invalid_param [of "- 1" "Some ''app''" 1 cfg0 "state0 [] (fs0 None)"]
    create_entry_invalid_param [of 5 None 1 cfg0 "state0 [] (fs0 None)"]
    create_entry_invalid_param [of 5 "Some ''app''" "- 1" cfg0 "state0 [] (fs0 None)"]
  by (simp add: cfg0_def state0_def q_name_of_def snprintf_def fmt_d_def fmt_u.simps)

text \<open>
  An empty name with a valid pid and version: the call returns \<open>BINMGR_OK\<close>, registers
  a binary with the empty name and creates the file \<open>_1\<close>.
\<close>

theorem create_entry_empty_name_counterexample:
  "fst (binary_manager_create_entry cfg0 5 (Some []) 1 (state0 [] (fs0 (Some []))))
     = BINMGR_OK cfg0
   \<and> BINMGR_OK cfg0 \<noteq> BINMGR_INVALID_PARAM cfg0
   \<and> store (fs (snd (binary_manager_create_entry cfg0 5 (Some []) 1 (state0 [] (fs0 (Some []))))))
     = Some [file_entry ''_1'']
   \<and> registry (snd (binary_manager_create_entry cfg0 5 (Some []) 1 (state0 [] (fs0 (Some [])))))
     = [user_slot [] (- 1)]"
  by code_simp

subsection \<open>The kernel\<close>

lemma create_entry_kernel_path:
  assumes "0 \<le> requester_pid" and "0 \<le> version"
  shows "binary_manager_create_entry cfg requester_pid (Some ''kernel'') version s =
     (if part_count (kdata s) > 1
      then send_result cfg requester_pid
             \<lparr>result = BINMGR_OK cfg, binpath = kernel_devname cfg (kdata s)\<rparr> s
      else send_result cfg requester_pid
             \<lparr>result = BINMGR_NOT_FOUND cfg, binpath = None\<rparr> s)"
  using assms
  by (simp add: binary_manager_create_entry_def strncmp_eq_0_iff binary_manager_get_kdata_def)

text \<open>
  Claim C4. A valid request for \<open>kernel\<close>, with the two-element \<open>part_info\<close> array: with
  two partitions and partition 0 in use the answer is \<open>BINMGR_OK\<close> with the device name
  of \<open>part_info[1]\<close>, with partition 1 in use that of \<open>part_info[0]\<close>, and with one
  partition \<open>BINMGR_NOT_FOUND\<close>. In each case the state after the call is the state
  before it with the response added: no system call, no change of the binary table.
\<close>

theorem create_entry_kernel:
  assumes "0 \<le> requester_pid" and "0 \<le> version"
    and "length (part_info (kdata s)) = 2"
  shows "(part_count (kdata s) = 2 \<and> inuse_idx (kdata s) = 0 \<longrightarrow>
            binary_manager_create_entry cfg requester_pid (Some ''kernel'') version s =
              (BINMGR_OK cfg,
               s\<lparr>outbox := outbox s @
                    [(q_name_of cfg requester_pid,
                      \<lparr>result = BINMGR_OK cfg,
                       binpath = Some (devname_of cfg (kdata s) 1)\<rparr>)]\<rparr>))
       \<and> (part_count (kdata s) = 2 \<and> inuse_idx (kdata s) = 1 \<longrightarrow>
            binary_manager_create_entry cfg requester_pid (Some ''kernel'') version s =
              (BINMGR_OK cfg,
               s\<lparr>outbox := outbox s @
                    [(q_name_of cfg requester_pid,
                      \<lparr>result = BINMGR_OK cfg,
                       binpath = Some (devname_of cfg (kdata s) 0)\<rparr>)]\<rparr>))
       \<and> (part_count (kdata s) = 1 \<longrightarrow>
            binary_manager_create_entry cfg requester_pid (Some ''kernel'') version s =
              (BINMGR_NOT_FOUND cfg,
               s\<lparr>outbox := outbox s @
                    [(q_name_of cfg requester_pid,
                      \<lparr>result = BINMGR_NOT_FOUND cfg, binpath = None\<rparr>)]\<rparr>))"
  using assms
  by (simp add: create_entry_kernel_path kernel_devname_def send_result_def
      binary_manager_send_response_def)

theorem create_entry_kernel_witness:
  "binary_manager_create_entry cfg0 5 (Some ''kernel'') 3 (state0 [] (fs0 None)) =
     (0, \<lparr>registry = [], kdata = kdata0 2 0, fs = fs0 None,
          outbox = [(''bm_priv5'', \<lparr>result = 0, binpath = Some ''/dev/mtdblock7''\<rparr>)]\<rparr>)
   \<and> binary_manager_create_entry cfg0 5 (Some ''kernel'') 3
        ((state0 [] (fs0 None))\<lparr>kdata := kdata0 2 1\<rparr>) =
     (0, \<lparr>registry = [], kdata = kdata0 2 1, fs = fs0 None,
          outbox = [(''bm_priv5'', \<lparr>result = 0, binpath = Some ''/dev/mtdblock4''\<rparr>)]\<rparr>)
   \<and> binary_manager_create_entry cfg0 5 (Some ''kernel'') 3
        ((state0 [] (fs0 None))\<lparr>kdata := kdata0 1 0\<rparr>) =
     (- 8, \<lparr>registry = [], kdata = kdata0 1 0, fs = fs0 None,
          outbox = [(''bm_priv5'', \<lparr>result = - 8, binpath = None\<rparr>)]\<rparr>)"
  using create_entry_kernel [of 5 3 "state0 [] (fs0 None)" cfg0]
    create_entry_kernel [of 5 3 "(state0 [] (fs0 None))\<lparr>kdata := kdata0 2 1\<rparr>" cfg0]
    create_entry_kernel [of 5 3 "(state0 [] (fs0 None))\<lparr>kdata := kdata0 1 0\<rparr>" cfg0]
  by (simp add: cfg0_def state0_def kdata0_def devname_of_def q_name_of_def snprintf_def
      fmt_d_def fmt_u.simps)

subsection \<open>A version that is already the current one\<close>

text \<open>
  Claim C5. A valid request for a user binary (a name that is not taken for the
  kernel's) that the table holds with the requested version is answered with
  \<open>BINMGR_ALREADY_UPDATED\<close>, and the state after the call is the state before it with
  the response added: no system call, no change of the binary table. The same request
  made again is answered the same way, with the same file system and table.
\<close>

theorem create_entry_already_updated:
  assumes "0 \<le> requester_pid" and "0 \<le> version"
    and "strncmp ''kernel'' name (BIN_NAME_MAX cfg) \<noteq> 0"
    and "0 \<le> binary_manager_get_index_with_name (registry s) name"
    and "BIN_VER (registry s) (binary_manager_get_index_with_name (registry s) name) = version"
  shows "binary_manager_create_entry cfg requester_pid (Some name) version s =
           (BINMGR_ALREADY_UPDATED cfg,
            s\<lparr>outbox := outbox s @
                 [(q_name_of cfg requester_pid,
                   \<lparr>result = BINMGR_ALREADY_UPDATED cfg, binpath = None\<rparr>)]\<rparr>)
       \<and> binary_manager_create_entry cfg requester_pid (Some name) version
           (snd (binary_manager_create_entry cfg requester_pid (Some name) version s)) =
           (BINMGR_ALREADY_UPDATED cfg,
            s\<lparr>outbox := outbox s @
                 [(q_name_of cfg requester_pid,
                   \<lparr>result = BINMGR_ALREADY_UPDATED cfg, binpath = None\<rparr>),
                  (q_name_of cfg requester_pid,
                   \<lparr>result = BINMGR_ALREADY_UPDATED cfg, binpath = None\<rparr>)]\<rparr>)"
  using assms
  by (simp add: binary_manager_create_entry_def send_result_def
      binary_manager_send_response_def)

theorem create_entry_already_updated_witness:
  "binary_manager_create_entry cfg0 5 (Some ''app'') 3
     (state0 [user_slot ''app'' 3] (fs0 (Some [file_entry ''app_3'']))) =
     (- 10, \<lparr>registry = [user_slot ''app'' 3], kdata = kdata0 2 0,
             fs = fs0 (Some [file_entry ''app_3'']),
             outbox = [(''bm_priv5'', \<lparr>result = - 10, binpath = None\<rparr>)]\<rparr>)
   \<and> binary_manager_create_entry cfg0 5 (Some ''app'') 3
       (snd (binary_manager_create_entry cfg0 5 (Some ''app'') 3
          (state0 [user_slot ''app'' 3] (fs0 (Some [file_entry ''app_3'']))))) =
     (- 10, \<lparr>registry = [user_slot ''app'' 3], kdata = kdata0 2 0,
             fs = fs0 (Some [file_entry ''app_3'']),
             outbox = [(''bm_priv5'', \<lparr>result = - 10, binpath = None\<rparr>),
                       (''bm_priv5'', \<lparr>result = - 10, binpath = None\<rparr>)]\<rparr>)"
proof -
  let ?s = "state0 [user_slot ''app'' 3] (fs0 (Some [file_entry ''app_3'']))"
  have k: "strncmp ''kernel'' ''app'' (BIN_NAME_MAX cfg0) \<noteq> 0"
    by (simp add: strncmp_eq_0_iff cfg0_def)
  have i: "0 \<le> binary_manager_get_index_with_name (registry ?s) ''app''"
    by (simp add: state0_def user_slot_def)
  have v: "BIN_VER (registry ?s) (binary_manager_get_index_with_name (registry ?s) ''app'') = 3"
    by (simp add: state0_def user_slot_def BIN_VER_def)
  have q: "q_name_of cfg0 5 = ''bm_priv5''"
    by (simp add: q_name_of_def cfg0_def snprintf_def fmt_d_def fmt_u.simps)
  have c: "BINMGR_ALREADY_UPDATED cfg0 = - 10"
    by (simp add: cfg0_def)
  show ?thesis
    using create_entry_already_updated [of 5 3 "''app''" cfg0 ?s, OF _ _ k i v]
    by (auto simp add: q c state0_def)
qed

subsection \<open>Opening the directory\<close>

lemma sys_opendir_absent:
  "store f = None \<Longrightarrow>
   sys_opendir cfg (BINARY_DIR_PATH cfg) f =
     (None, f\<lparr>errno := ENOENT, calls := calls f @ [Opendir (BINARY_DIR_PATH cfg)]\<rparr>)"
  by (simp add: sys_opendir_def sys_log_def sys_fail_def)

lemma sys_opendir_fault:
  "store f = Some ents \<Longrightarrow> opendir_fault f = Some e \<Longrightarrow>
   sys_opendir cfg (BINARY_DIR_PATH cfg) f =
     (None, f\<lparr>errno := e, calls := calls f @ [Opendir (BINARY_DIR_PATH cfg)]\<rparr>)"
  by (simp add: sys_opendir_def sys_log_def sys_fail_def)

lemma sys_opendir_ok:
  "store f = Some ents \<Longrightarrow> opendir_fault f = None \<Longrightarrow>
   sys_opendir cfg (BINARY_DIR_PATH cfg) f =
     (Some ents, f\<lparr>calls := calls f @ [Opendir (BINARY_DIR_PATH cfg)]\<rparr>)"
  by (simp add: sys_opendir_def sys_log_def sys_fail_def)

lemma clear_binfile_absent:
  assumes "store f = None"
  shows "binary_manager_clear_binfile cfg tbl bin_idx f =
           (BINMGR_OK cfg,
            f\<lparr>errno := ENOENT, calls := calls f @ [Opendir (BINARY_DIR_PATH cfg)]\<rparr>)"
  using assms by (simp add: binary_manager_clear_binfile_def sys_opendir_absent)

lemma clear_binfile_fault:
  assumes "store f = Some ents" and "opendir_fault f = Some e" and "e \<noteq> ENOENT"
  shows "binary_manager_clear_binfile cfg tbl bin_idx f =
           (BINMGR_OPERATION_FAIL cfg,
            f\<lparr>errno := e, calls := calls f @ [Opendir (BINARY_DIR_PATH cfg)]\<rparr>)"
  using assms by (simp add: binary_manager_clear_binfile_def sys_opendir_fault)

lemma create_entry_clear_fails:
  assumes "0 \<le> requester_pid" and "0 \<le> version"
    and "strncmp ''kernel'' name (BIN_NAME_MAX cfg) \<noteq> 0"
    and "0 \<le> binary_manager_get_index_with_name (registry s) name"
    and "BIN_VER (registry s) (binary_manager_get_index_with_name (registry s) name) \<noteq> version"
    and "store (fs s) = Some ents" and "opendir_fault (fs s) = Some e" and "e \<noteq> ENOENT"
    and "BINMGR_OPERATION_FAIL cfg < 0"
  shows "binary_manager_create_entry cfg requester_pid (Some name) version s =
           (BINMGR_OPERATION_FAIL cfg,
            s\<lparr>fs := (fs s)\<lparr>errno := e,
                            calls := calls (fs s) @ [Opendir (BINARY_DIR_PATH cfg)]\<rparr>,
              outbox := outbox s @
                [(q_name_of cfg requester_pid,
                  \<lparr>result = BINMGR_OPERATION_FAIL cfg, binpath = None\<rparr>)]\<rparr>)"
  using assms
  by (simp add: binary_manager_create_entry_def clear_binfile_fault send_result_def
      binary_manager_send_response_def)

text \<open>
  Claim C8. When the directory does not exist, \<^verbatim>\<open>binary_manager_clear_binfile\<close>
  returns \<open>BINMGR_OK\<close> after the one \<^verbatim>\<open>opendir\<close>: nothing is removed. When the
  directory exists and \<^verbatim>\<open>opendir\<close> fails with an error other than \<open>ENOENT\<close>, it
  returns \<open>BINMGR_OPERATION_FAIL\<close>. In a valid request for a registered user binary with
  another version, that failure ends \<^verbatim>\<open>binary_manager_create_entry\<close>: with a negative
  \<open>BINMGR_OPERATION_FAIL\<close>, as the test \<^verbatim>\<open>ret < 0\<close> of line 175 expects, it returns that
  code, and the failed \<^verbatim>\<open>opendir\<close> is the only system call made: no file is created and
  the directory keeps its entries.
\<close>

theorem clear_binfile_opendir_failure:
  "(store f = None \<longrightarrow>
      binary_manager_clear_binfile cfg tbl bin_idx f =
        (BINMGR_OK cfg,
         f\<lparr>errno := ENOENT, calls := calls f @ [Opendir (BINARY_DIR_PATH cfg)]\<rparr>))
   \<and> (store f = Some ents \<and> opendir_fault f = Some e \<and> e \<noteq> ENOENT \<longrightarrow>
      binary_manager_clear_binfile cfg tbl bin_idx f =
        (BINMGR_OPERATION_FAIL cfg,
         f\<lparr>errno := e, calls := calls f @ [Opendir (BINARY_DIR_PATH cfg)]\<rparr>))
   \<and> (store (fs s) = Some ents \<and> opendir_fault (fs s) = Some e \<and> e \<noteq> ENOENT
      \<and> 0 \<le> requester_pid \<and> 0 \<le> version
      \<and> strncmp ''kernel'' name (BIN_NAME_MAX cfg) \<noteq> 0
      \<and> 0 \<le> binary_manager_get_index_with_name (registry s) name
      \<and> BIN_VER (registry s) (binary_manager_get_index_with_name (registry s) name) \<noteq> version
      \<and> BINMGR_OPERATION_FAIL cfg < 0 \<longrightarrow>
      binary_manager_create_entry cfg requester_pid (Some name) version s =
        (BINMGR_OPERATION_FAIL cfg,
         s\<lparr>fs := (fs s)\<lparr>errno := e,
                         calls := calls (fs s) @ [Opendir (BINARY_DIR_PATH cfg)]\<rparr>,
           outbox := outbox s @
             [(q_name_of cfg requester_pid,
               \<lparr>result = BINMGR_OPERATION_FAIL cfg, binpath = None\<rparr>)]\<rparr>))"
  using clear_binfile_absent [of f cfg tbl bin_idx]
    clear_binfile_fault [of f ents e cfg tbl bin_idx]
    create_entry_clear_fails [of requester_pid version name cfg s ents e]
  by blast

theorem clear_binfile_opendir_failure_witness:
  "binary_manager_clear_binfile cfg0 [user_slot ''foo'' 1] 0 (fs0 None) =
     (0, (fs0 None)\<lparr>errno := ENOENT, calls := [Opendir ''/mnt/bins'']\<rparr>)
   \<and> binary_manager_clear_binfile cfg0 [user_slot ''foo'' 1] 0
       ((fs0 (Some [file_entry ''foo_0'']))\<lparr>opendir_fault := Some EACCES\<rparr>) =
     (- 2, (fs0 (Some [file_entry ''foo_0'']))
             \<lparr>opendir_fault := Some EACCES, errno := EACCES,
              calls := [Opendir ''/mnt/bins'']\<rparr>)
   \<and> binary_manager_create_entry cfg0 5 (Some ''foo'') 2
       (state0 [user_slot ''foo'' 1]
          ((fs0 (Some [file_entry ''foo_0'']))\<lparr>opendir_fault := Some EACCES\<rparr>)) =
     (- 2, \<lparr>registry = [user_slot ''foo'' 1], kdata = kdata0 2 0,
            fs = (fs0 (Some [file_entry ''foo_0'']))
                   \<lparr>opendir_fault := Some EACCES, errno := EACCES,
                    calls := [Opendir ''/mnt/bins'']\<rparr>,
            outbox = [(''bm_priv5'', \<lparr>result = - 2, binpath = None\<rparr>)]\<rparr>)"
  using clear_binfile_opendir_failure [where f = "fs0 None" and cfg = cfg0
      and tbl = "[user_slot ''foo'' 1]" and bin_idx = 0 and ents = "[file_entry ''foo_0'']"
      and e = EACCES and requester_pid = 5 and version = 2 and name = "''foo''"
      and s = "state0 [user_slot ''foo'' 1]
                 ((fs0 (Some [file_entry ''foo_0'']))\<lparr>opendir_fault := Some EACCES\<rparr>)"]
    clear_binfile_opendir_failure [where
      f = "(fs0 (Some [file_entry ''foo_0'']))\<lparr>opendir_fault := Some EACCES\<rparr>" and cfg = cfg0
      and tbl = "[user_slot ''foo'' 1]" and bin_idx = 0 and ents = "[file_entry ''foo_0'']"
      and e = EACCES and requester_pid = 5 and version = 2 and name = "''foo''"
      and s = "state0 [user_slot ''foo'' 1]
                 ((fs0 (Some [file_entry ''foo_0'']))\<lparr>opendir_fault := Some EACCES\<rparr>)"]
  by (simp add: cfg0_def state0_def fs0_def user_slot_def BIN_VER_def strncmp_eq_0_iff
      q_name_of_def snprintf_def fmt_d_def fmt_u.simps)

subsection \<open>Removing the files of other versions\<close>

text \<open>
  What the loop does when no call fails and no path is cut short by the \<open>NAME_MAX\<close>
  characters of line 71: it removes exactly the entries that satisfy the condition of
  lines 69 and 70, that is the regular files whose name begins with the binary's name
  and an underscore and does not begin with the name of the running file.
\<close>

lemma clear_cond_iff:
  "clear_cond name running_file entryp \<longleftrightarrow>
     d_type entryp = DTYPE_FILE
     \<and> take (length name + 1) (d_name entryp) = name @ ''_''
     \<and> take (length running_file) (d_name entryp) \<noteq> running_file"
proof -
  have "(take (length name) (d_name entryp) = name
          \<and> char_at (d_name entryp) (length name) = CHR ''_'')
        \<longleftrightarrow> take (length name + 1) (d_name entryp) = name @ ''_''"
  proof (cases "length name < length (d_name entryp)")
    case True
    then show ?thesis
      by (simp add: char_at_def take_Suc_conv_app_nth)
  next
    case False
    then have "length (take (length name + 1) (d_name entryp)) \<noteq> length (name @ ''_'')"
      by simp
    then have "take (length name + 1) (d_name entryp) \<noteq> name @ ''_''"
      by metis
    with False show ?thesis
      by (simp add: char_at_def)
  qed
  then show ?thesis
    by (auto simp: clear_cond_def strlen_def DIRENT_ISFILE_def strncmp_eq_0_iff Let_def)
qed

lemma entry_of_path_entry:
  assumes "n \<noteq> []" and "CHR ''/'' \<notin> set n"
    and "length (BINARY_DIR_PATH cfg) + length n + 1 < NAME_MAX cfg"
  shows "entry_of_path cfg (snprintf (NAME_MAX cfg) (BINARY_DIR_PATH cfg @ ''/'' @ n)) = Some n"
  using assms by (simp add: entry_of_path_def snprintf_def Let_def)

lemma find_distinct_name:
  assumes "distinct (map d_name cur)" and "e \<in> set cur"
  shows "find (\<lambda>x. d_name x = d_name e) cur = Some e"
  using assms
proof (induction cur)
  case Nil
  then show ?case by simp
next
  case (Cons x cur)
  show ?case
  proof (cases "x = e")
    case True
    then show ?thesis by simp
  next
    case False
    with Cons.prems have "e \<in> set cur" by simp
    with Cons.prems(1) have "d_name x \<noteq> d_name e" by force
    with Cons \<open>e \<in> set cur\<close> show ?thesis by simp
  qed
qed

lemma filter_distinct_name:
  assumes "distinct (map d_name cur)" and "e \<in> set cur"
  shows "filter (\<lambda>x. d_name x \<noteq> d_name e) cur = filter (\<lambda>x. x \<noteq> e) cur"
proof (rule filter_cong [OF refl])
  fix x assume "x \<in> set cur"
  with assms show "(d_name x \<noteq> d_name e) = (x \<noteq> e)"
    by (auto simp: distinct_map inj_on_def)
qed

lemma sys_unlink_file:
  assumes "store f = Some cur" and "unlink_fault f = None"
    and "distinct (map d_name cur)" and "e \<in> set cur" and "d_type e = DTYPE_FILE"
    and "d_name e \<noteq> []" and "CHR ''/'' \<notin> set (d_name e)"
    and "length (BINARY_DIR_PATH cfg) + length (d_name e) + 1 < NAME_MAX cfg"
  shows "store (snd (sys_unlink cfg
                  (snprintf (NAME_MAX cfg) (BINARY_DIR_PATH cfg @ ''/'' @ d_name e)) f))
           = Some (filter (\<lambda>x. x \<noteq> e) cur)"
    and "unlink_fault (snd (sys_unlink cfg
                  (snprintf (NAME_MAX cfg) (BINARY_DIR_PATH cfg @ ''/'' @ d_name e)) f)) = None"
proof -
  let ?p = "snprintf (NAME_MAX cfg) (BINARY_DIR_PATH cfg @ ''/'' @ d_name e)"
  have p: "entry_of_path cfg ?p = Some (d_name e)"
    using assms(6-8) by (rule entry_of_path_entry)
  have fd: "find (\<lambda>x. d_name x = d_name e) cur = Some e"
    using assms(3,4) by (rule find_distinct_name)
  have fl: "filter (\<lambda>x. d_name x \<noteq> d_name e) cur = filter (\<lambda>x. x \<noteq> e) cur"
    using assms(3,4) by (rule filter_distinct_name)
  have "sys_unlink cfg ?p f =
          (0, f\<lparr>calls := calls f @ [Unlink ?p], store := Some (filter (\<lambda>x. x \<noteq> e) cur)\<rparr>)"
    unfolding sys_unlink_def Let_def p
    using assms(1,2,5) fd fl by (simp add: sys_log_def)
  then show "store (snd (sys_unlink cfg ?p f)) = Some (filter (\<lambda>x. x \<noteq> e) cur)"
    and "unlink_fault (snd (sys_unlink cfg ?p f)) = None"
    using assms(2) by simp_all
qed

lemma clear_loop_store:
  assumes "store f = Some cur" and "unlink_fault f = None"
    and "distinct (map d_name cur)" and "distinct es" and "set es \<subseteq> set cur"
    and "\<forall>e \<in> set es. d_name e \<noteq> [] \<and> CHR ''/'' \<notin> set (d_name e)
           \<and> length (BINARY_DIR_PATH cfg) + length (d_name e) + 1 < NAME_MAX cfg"
  shows "store (clear_loop cfg name running_file es f)
           = Some (filter (\<lambda>x. \<not> (x \<in> set es \<and> clear_cond name running_file x)) cur)"
  using assms
proof (induction es arbitrary: f cur)
  case Nil
  then show ?case by simp
next
  case (Cons e es)
  show ?case
  proof (cases "clear_cond name running_file e")
    case False
    have "store (clear_loop cfg name running_file es f)
           = Some (filter (\<lambda>x. \<not> (x \<in> set es \<and> clear_cond name running_file x)) cur)"
      using Cons.prems by (intro Cons.IH) auto
    moreover have "filter (\<lambda>x. \<not> (x \<in> set es \<and> clear_cond name running_file x)) cur
        = filter (\<lambda>x. \<not> (x \<in> set (e # es) \<and> clear_cond name running_file x)) cur"
      using False by (intro filter_cong) auto
    ultimately show ?thesis using False by simp
  next
    case True
    let ?f1 = "snd (sys_unlink cfg
                  (snprintf (NAME_MAX cfg) (BINARY_DIR_PATH cfg @ ''/'' @ d_name e)) f)"
    let ?cur1 = "filter (\<lambda>x. x \<noteq> e) cur"
    have isfile: "d_type e = DTYPE_FILE"
      using True by (simp add: clear_cond_iff)
    have e: "e \<in> set cur" "d_name e \<noteq> []" "CHR ''/'' \<notin> set (d_name e)"
      "length (BINARY_DIR_PATH cfg) + length (d_name e) + 1 < NAME_MAX cfg"
      using Cons.prems by auto
    have s1: "store ?f1 = Some ?cur1" and u1: "unlink_fault ?f1 = None"
      using sys_unlink_file [OF Cons.prems(1-3) e(1) isfile e(2-4)] by simp_all
    have d1: "distinct (map d_name ?cur1)"
      using Cons.prems(3) by (simp add: distinct_map_filter)
    have sub: "set es \<subseteq> set ?cur1"
      using Cons.prems(4,5) by auto
    have "store (clear_loop cfg name running_file es ?f1)
           = Some (filter (\<lambda>x. \<not> (x \<in> set es \<and> clear_cond name running_file x)) ?cur1)"
      using Cons.prems(4,6) by (intro Cons.IH [OF s1 u1 d1 _ sub]) auto
    moreover have "filter (\<lambda>x. \<not> (x \<in> set es \<and> clear_cond name running_file x)) ?cur1
        = filter (\<lambda>x. \<not> (x \<in> set (e # es) \<and> clear_cond name running_file x)) cur"
      using True by (auto intro: filter_cong)
    ultimately show ?thesis using True by simp
  qed
qed

lemma clear_binfile_store:
  assumes "store f = Some ents" and "opendir_fault f = None" and "unlink_fault f = None"
    and "distinct (map d_name ents)"
    and "\<forall>e \<in> set ents. d_name e \<noteq> [] \<and> CHR ''/'' \<notin> set (d_name e)
           \<and> length (BINARY_DIR_PATH cfg) + length (d_name e) + 1 < NAME_MAX cfg"
  shows "fst (binary_manager_clear_binfile cfg tbl bin_idx f) = BINMGR_OK cfg"
    and "store (snd (binary_manager_clear_binfile cfg tbl bin_idx f)) =
           Some (filter (\<lambda>x. \<not> clear_cond (BIN_NAME tbl bin_idx)
                   (snprintf (NAME_MAX cfg)
                      (BIN_NAME tbl bin_idx @ ''_'' @ fmt_d (BIN_VER tbl bin_idx))) x) ents)"
proof -
  let ?f = "f\<lparr>calls := calls f @ [Opendir (BINARY_DIR_PATH cfg)]\<rparr>"
  let ?rf = "snprintf (NAME_MAX cfg) (BIN_NAME tbl bin_idx @ ''_'' @ fmt_d (BIN_VER tbl bin_idx))"
  have r: "binary_manager_clear_binfile cfg tbl bin_idx f
         = (BINMGR_OK cfg, clear_loop cfg (BIN_NAME tbl bin_idx) ?rf ents ?f)"
    using assms(1,2) by (simp add: binary_manager_clear_binfile_def sys_opendir_ok)
  show "fst (binary_manager_clear_binfile cfg tbl bin_idx f) = BINMGR_OK cfg"
    by (simp add: r)
  have d: "distinct ents"
    using assms(4) by (simp add: distinct_map)
  have "store (clear_loop cfg (BIN_NAME tbl bin_idx) ?rf ents ?f)
      = Some (filter (\<lambda>x. \<not> (x \<in> set ents \<and> clear_cond (BIN_NAME tbl bin_idx) ?rf x)) ents)"
    using assms by (intro clear_loop_store [OF _ _ _ d]) simp_all
  also have "filter (\<lambda>x. \<not> (x \<in> set ents \<and> clear_cond (BIN_NAME tbl bin_idx) ?rf x)) ents
      = filter (\<lambda>x. \<not> clear_cond (BIN_NAME tbl bin_idx) ?rf x) ents"
    by (intro filter_cong) auto
  finally show "store (snd (binary_manager_clear_binfile cfg tbl bin_idx f)) =
           Some (filter (\<lambda>x. \<not> clear_cond (BIN_NAME tbl bin_idx) ?rf x) ents)"
    by (simp add: r)
qed

text \<open>
  Claim C1 on a directory with the files \<open>foo_1\<close>, \<open>foo_10\<close>, \<open>foo_2\<close> and \<open>foobar_1\<close>,
  for the binary \<open>foo\<close> running version 1: the call succeeds and removes \<open>foo_2\<close> only.
  Line 70 compares the first \<open>strlen(running_file)\<close> characters, so \<open>foo_10\<close>, which
  begins with \<open>foo_1\<close>, is taken for the running file and stays.
\<close>

theorem clear_binfile_keeps_longer_version:
  "binary_manager_clear_binfile cfg0 [user_slot ''foo'' 1] 0
     (fs0 (Some [file_entry ''foo_1'', file_entry ''foo_10'', file_entry ''foo_2'',
                 file_entry ''foobar_1'']))
   = (BINMGR_OK cfg0,
      (fs0 (Some [file_entry ''foo_1'', file_entry ''foo_10'', file_entry ''foobar_1'']))
        \<lparr>calls := [Opendir ''/mnt/bins'', Unlink ''/mnt/bins/foo_2'']\<rparr>)"
  by (simp add: binary_manager_clear_binfile_def cfg0_def fs0_def user_slot_def file_entry_def
      BIN_NAME_def BIN_VER_def snprintf_def fmt_d_def fmt_u.simps sys_opendir_def sys_log_def
      sys_fail_def clear_cond_def strlen_def strncmp_eq_0_iff char_at_def DIRENT_ISFILE_def
      sys_unlink_def entry_of_path_def)

subsection \<open>Creating the file\<close>

lemma fmt_u_digits: "set (fmt_u n) \<subseteq> set ''0123456789''"
proof (induction n rule: fmt_u.induct)
  case (1 n)
  have d: "''0123456789'' ! k \<in> set ''0123456789''" if "k < 10" for k
    using that by (intro nth_mem) simp
  show ?case
  proof (cases "n < 10")
    case True
    then show ?thesis using d [of n] by (subst fmt_u.simps) simp
  next
    case False
    have "n mod 10 < 10" by simp
    with False "1" d [of "n mod 10"] show ?thesis
      by (subst fmt_u.simps) simp
  qed
qed

lemma fmt_d_no_slash: "CHR ''/'' \<notin> set (fmt_d i)"
  using fmt_u_digits [of "nat i"] fmt_u_digits [of "nat (- i)"]
  by (auto simp: fmt_d_def)

lemma entry_of_path_new:
  assumes "length (BINARY_DIR_PATH cfg) + length name + length (fmt_d version) + 2
             < CONFIG_PATH_MAX cfg"
    and "CHR ''/'' \<notin> set name"
  shows "new_filepath cfg name version
           = BINARY_DIR_PATH cfg @ ''/'' @ name @ ''_'' @ fmt_d version"
    and "entry_of_path cfg (new_filepath cfg name version) = Some (name @ ''_'' @ fmt_d version)"
  using assms fmt_d_no_slash [of version]
  by (simp_all add: entry_of_path_def new_filepath_def snprintf_def Let_def)

lemma sys_open_absent:
  "store f = None \<Longrightarrow> entry_of_path cfg p = Some n \<Longrightarrow>
   sys_open cfg p f = (- 1, f\<lparr>errno := ENOENT, calls := calls f @ [Open p]\<rparr>)"
  by (simp add: sys_open_def sys_log_def sys_fail_def Let_def)

lemma sys_open_fault:
  "store f = Some ents \<Longrightarrow> open_fault f = Some e \<Longrightarrow> entry_of_path cfg p = Some n \<Longrightarrow>
   sys_open cfg p f = (- 1, f\<lparr>errno := e, calls := calls f @ [Open p]\<rparr>)"
  by (simp add: sys_open_def sys_log_def sys_fail_def)

lemma sys_open_new:
  "store f = Some [] \<Longrightarrow> open_fault f = None \<Longrightarrow> entry_of_path cfg p = Some n \<Longrightarrow>
   sys_open cfg p f =
     (next_fd f, f\<lparr>store := Some [file_entry n], next_fd := next_fd f + 1,
                   calls := calls f @ [Open p]\<rparr>)"
  by (simp add: sys_open_def sys_log_def sys_fail_def file_entry_def)

lemma sys_mkdir_new:
  "store f = None \<Longrightarrow> mkdir_fault f = None \<Longrightarrow>
   sys_mkdir cfg (BINARY_DIR_PATH cfg) f =
     (0, f\<lparr>store := Some [], calls := calls f @ [Mkdir (BINARY_DIR_PATH cfg)]\<rparr>)"
  by (simp add: sys_mkdir_def sys_log_def sys_fail_def)

lemma sys_mkdir_fault:
  "store f = None \<Longrightarrow> mkdir_fault f = Some e \<Longrightarrow>
   sys_mkdir cfg (BINARY_DIR_PATH cfg) f =
     (- 1, f\<lparr>errno := e, calls := calls f @ [Mkdir (BINARY_DIR_PATH cfg)]\<rparr>)"
  by (simp add: sys_mkdir_def sys_log_def sys_fail_def)

lemma sys_close_last:
  "0 \<le> fd \<Longrightarrow> next_fd f = fd + 1 \<Longrightarrow>
   sys_close fd f = f\<lparr>next_fd := fd, calls := calls f @ [Close fd]\<rparr>"
  by (simp add: sys_close_def sys_log_def)

text \<open>
  The lines 187 to 209 when the directory does not exist and the path names an entry of
  it: with a positive descriptor the file is created at the second \<^verbatim>\<open>open\<close>.
\<close>

lemma create_file_absent_created:
  assumes "store f = None" and "mkdir_fault f = None" and "open_fault f = None"
    and "0 < next_fd f"
    and "entry_of_path cfg (new_filepath cfg name version) = Some n"
  shows "create_file cfg name version f =
           (\<lparr>result = BINMGR_OK cfg, binpath = Some (new_filepath cfg name version)\<rparr>,
            f\<lparr>store := Some [file_entry n], errno := ENOENT,
              calls := calls f @
                [Open (new_filepath cfg name version), Mkdir (BINARY_DIR_PATH cfg),
                 Open (new_filepath cfg name version), Close (next_fd f)]\<rparr>)"
  using assms
  by (simp add: create_file_def sys_open_absent sys_mkdir_new sys_open_new sys_close_last Let_def)

text \<open>
  With the descriptor 0 the second \<^verbatim>\<open>open\<close> creates the file as well, and the test
  \<^verbatim>\<open>fd > 0\<close> of line 202 takes its result for a failure: the answer is
  \<open>BINMGR_OPERATION_FAIL\<close>, and the descriptor stays open.
\<close>

lemma create_file_absent_descriptor_zero:
  assumes "store f = None" and "mkdir_fault f = None" and "open_fault f = None"
    and "next_fd f = 0"
    and "entry_of_path cfg (new_filepath cfg name version) = Some n"
  shows "create_file cfg name version f =
           (\<lparr>result = BINMGR_OPERATION_FAIL cfg, binpath = None\<rparr>,
            f\<lparr>store := Some [file_entry n], next_fd := 1, errno := ENOENT,
              calls := calls f @
                [Open (new_filepath cfg name version), Mkdir (BINARY_DIR_PATH cfg),
                 Open (new_filepath cfg name version)]\<rparr>)"
  using assms
  by (simp add: create_file_def sys_open_absent sys_mkdir_new sys_open_new Let_def)

text \<open>
  Whatever the descriptor: the directory is created and \<^verbatim>\<open>open\<close> is called once more
  and no further.
\<close>

lemma create_file_absent_retry:
  assumes "store f = None" and "mkdir_fault f = None"
    and "entry_of_path cfg (new_filepath cfg name version) = Some n"
  shows "store (snd (create_file cfg name version f)) \<noteq> None
       \<and> creation_calls (calls (snd (create_file cfg name version f))) =
           creation_calls (calls f) @
             [Open (new_filepath cfg name version), Mkdir (BINARY_DIR_PATH cfg),
              Open (new_filepath cfg name version)]"
  using assms
  apply (simp add: create_file_def sys_open_absent sys_mkdir_new Let_def split: prod.split)
  apply (auto simp add: sys_open_def sys_log_def sys_fail_def sys_close_def creation_calls_def Let_def
      split: option.splits if_splits)
  done

lemma create_file_absent_retry_fails:
  assumes "store f = None" and "mkdir_fault f = None" and "open_fault f = Some e"
    and "entry_of_path cfg (new_filepath cfg name version) = Some n"
  shows "create_file cfg name version f =
           (\<lparr>result = BINMGR_OPERATION_FAIL cfg, binpath = None\<rparr>,
            f\<lparr>store := Some [], errno := e,
              calls := calls f @
                [Open (new_filepath cfg name version), Mkdir (BINARY_DIR_PATH cfg),
                 Open (new_filepath cfg name version)]\<rparr>)"
  using assms
  by (simp add: create_file_def sys_open_absent sys_mkdir_new sys_open_fault Let_def)

lemma create_file_absent_mkdir_fails:
  assumes "store f = None" and "mkdir_fault f = Some e"
    and "entry_of_path cfg (new_filepath cfg name version) = Some n"
  shows "create_file cfg name version f =
           (\<lparr>result = BINMGR_OPERATION_FAIL cfg, binpath = None\<rparr>,
            f\<lparr>errno := e,
              calls := calls f @
                [Open (new_filepath cfg name version), Mkdir (BINARY_DIR_PATH cfg)]\<rparr>)"
  using assms
  by (simp add: create_file_def sys_open_absent sys_mkdir_fault Let_def)

lemma create_file_other_failure:
  assumes "store f = Some ents" and "open_fault f = Some e" and "e \<noteq> ENOENT"
    and "entry_of_path cfg (new_filepath cfg name version) = Some n"
  shows "create_file cfg name version f =
           (\<lparr>result = BINMGR_OPERATION_FAIL cfg, binpath = None\<rparr>,
            f\<lparr>errno := e, calls := calls f @ [Open (new_filepath cfg name version)]\<rparr>)"
  using assms
  by (simp add: create_file_def sys_open_fault Let_def)

lemma create_entry_new_binary:
  assumes "0 \<le> requester_pid" and "0 \<le> version"
    and "strncmp ''kernel'' name (BIN_NAME_MAX cfg) \<noteq> 0"
    and "binary_manager_get_index_with_name (registry s) name < 0"
    and "\<not> register_refused cfg (map slot_name (registry s)) name"
  shows "binary_manager_create_entry cfg requester_pid (Some name) version s =
           send_result cfg requester_pid (fst (create_file cfg name version (fs s)))
             (s\<lparr>registry := registry s @
                   [\<lparr>slot_name = name, slot_kind = User, slot_ver = fresh_version cfg\<rparr>],
                fs := snd (create_file cfg name version (fs s))\<rparr>)"
  using assms
  by (simp add: binary_manager_create_entry_def binary_manager_register_ubin_def Let_def
      split: prod.split)

lemma create_entry_other_version:
  assumes "0 \<le> requester_pid" and "0 \<le> version"
    and "strncmp ''kernel'' name (BIN_NAME_MAX cfg) \<noteq> 0"
    and "0 \<le> binary_manager_get_index_with_name (registry s) name"
    and "BIN_VER (registry s) (binary_manager_get_index_with_name (registry s) name) \<noteq> version"
    and "binary_manager_clear_binfile cfg (registry s)
           (binary_manager_get_index_with_name (registry s) name) (fs s) = (ret, f1)"
    and "0 \<le> ret"
  shows "binary_manager_create_entry cfg requester_pid (Some name) version s =
           send_result cfg requester_pid (fst (create_file cfg name version f1))
             (s\<lparr>fs := snd (create_file cfg name version f1)\<rparr>)"
  using assms
  by (simp add: binary_manager_create_entry_def Let_def split: prod.split)

lemma create_entry_app_1:
  assumes "0 \<le> requester_pid" and "0 < BIN_NAME_MAX cfg"
    and "binary_manager_get_index_with_name (registry s) ''app'' < 0"
    and "\<not> register_refused cfg (map slot_name (registry s)) ''app''"
    and "store (fs s) = None" and "mkdir_fault (fs s) = None" and "open_fault (fs s) = None"
    and "0 < next_fd (fs s)"
    and "length (BINARY_DIR_PATH cfg) + 6 < CONFIG_PATH_MAX cfg"
  shows "binary_manager_create_entry cfg requester_pid (Some ''app'') 1 s =
           (BINMGR_OK cfg,
            s\<lparr>registry := registry s @
                  [\<lparr>slot_name = ''app'', slot_kind = User, slot_ver = fresh_version cfg\<rparr>],
              fs := (fs s)\<lparr>store := Some [file_entry ''app_1''], errno := ENOENT,
                      calls := calls (fs s) @
                        [Open (BINARY_DIR_PATH cfg @ ''/app_1''), Mkdir (BINARY_DIR_PATH cfg),
                         Open (BINARY_DIR_PATH cfg @ ''/app_1''), Close (next_fd (fs s))]\<rparr>,
              outbox := outbox s @
                [(q_name_of cfg requester_pid,
                  \<lparr>result = BINMGR_OK cfg,
                   binpath = Some (BINARY_DIR_PATH cfg @ ''/app_1'')\<rparr>)]\<rparr>)"
proof -
  have one: "fmt_d 1 = ''1''"
    by (simp add: fmt_d_def fmt_u.simps)
  have k: "strncmp ''kernel'' ''app'' (BIN_NAME_MAX cfg) \<noteq> 0"
    using assms(2) by (cases "BIN_NAME_MAX cfg") (simp_all add: strncmp_eq_0_iff)
  have fits: "length (BINARY_DIR_PATH cfg) + length ''app'' + length (fmt_d 1) + 2
                < CONFIG_PATH_MAX cfg"
    using assms(9) by (simp add: one)
  have p: "new_filepath cfg ''app'' 1 = BINARY_DIR_PATH cfg @ ''/app_1''"
    and n: "entry_of_path cfg (new_filepath cfg ''app'' 1) = Some ''app_1''"
    using entry_of_path_new [OF fits] by (simp_all add: one)
  have "create_file cfg ''app'' 1 (fs s) =
          (\<lparr>result = BINMGR_OK cfg, binpath = Some (BINARY_DIR_PATH cfg @ ''/app_1'')\<rparr>,
           (fs s)\<lparr>store := Some [file_entry ''app_1''], errno := ENOENT,
              calls := calls (fs s) @
                [Open (BINARY_DIR_PATH cfg @ ''/app_1''), Mkdir (BINARY_DIR_PATH cfg),
                 Open (BINARY_DIR_PATH cfg @ ''/app_1''), Close (next_fd (fs s))]\<rparr>)"
    using create_file_absent_created [OF assms(5-8) n] by (simp add: p)
  then show ?thesis
    using create_entry_new_binary [OF assms(1) _ k assms(3,4), of 1]
    by (simp add: send_result_def binary_manager_send_response_def)
qed


lemma create_file_result:
  "fst (create_file cfg name version f) = \<lparr>result = BINMGR_OPERATION_FAIL cfg, binpath = None\<rparr>
   \<or> fst (create_file cfg name version f) =
       \<lparr>result = BINMGR_OK cfg, binpath = Some (new_filepath cfg name version)\<rparr>"
  by (simp add: create_file_def Let_def split: prod.split)

lemma create_entry_app_1_descriptor_zero:
  assumes "0 \<le> requester_pid" and "0 < BIN_NAME_MAX cfg"
    and "binary_manager_get_index_with_name (registry s) ''app'' < 0"
    and "\<not> register_refused cfg (map slot_name (registry s)) ''app''"
    and "store (fs s) = None" and "mkdir_fault (fs s) = None" and "open_fault (fs s) = None"
    and "next_fd (fs s) = 0"
    and "length (BINARY_DIR_PATH cfg) + 6 < CONFIG_PATH_MAX cfg"
  shows "binary_manager_create_entry cfg requester_pid (Some ''app'') 1 s =
           (BINMGR_OPERATION_FAIL cfg,
            s\<lparr>registry := registry s @
                  [\<lparr>slot_name = ''app'', slot_kind = User, slot_ver = fresh_version cfg\<rparr>],
              fs := (fs s)\<lparr>store := Some [file_entry ''app_1''], next_fd := 1, errno := ENOENT,
                      calls := calls (fs s) @
                        [Open (BINARY_DIR_PATH cfg @ ''/app_1''), Mkdir (BINARY_DIR_PATH cfg),
                         Open (BINARY_DIR_PATH cfg @ ''/app_1'')]\<rparr>,
              outbox := outbox s @
                [(q_name_of cfg requester_pid,
                  \<lparr>result = BINMGR_OPERATION_FAIL cfg, binpath = None\<rparr>)]\<rparr>)"
proof -
  have one: "fmt_d 1 = ''1''"
    by (simp add: fmt_d_def fmt_u.simps)
  have k: "strncmp ''kernel'' ''app'' (BIN_NAME_MAX cfg) \<noteq> 0"
    using assms(2) by (cases "BIN_NAME_MAX cfg") (simp_all add: strncmp_eq_0_iff)
  have fits: "length (BINARY_DIR_PATH cfg) + length ''app'' + length (fmt_d 1) + 2
                < CONFIG_PATH_MAX cfg"
    using assms(9) by (simp add: one)
  have p: "new_filepath cfg ''app'' 1 = BINARY_DIR_PATH cfg @ ''/app_1''"
    and n: "entry_of_path cfg (new_filepath cfg ''app'' 1) = Some ''app_1''"
    using entry_of_path_new [OF fits] by (simp_all add: one)
  have "create_file cfg ''app'' 1 (fs s) =
          (\<lparr>result = BINMGR_OPERATION_FAIL cfg, binpath = None\<rparr>,
           (fs s)\<lparr>store := Some [file_entry ''app_1''], next_fd := 1, errno := ENOENT,
              calls := calls (fs s) @
                [Open (BINARY_DIR_PATH cfg @ ''/app_1''), Mkdir (BINARY_DIR_PATH cfg),
                 Open (BINARY_DIR_PATH cfg @ ''/app_1'')]\<rparr>)"
    using create_file_absent_descriptor_zero [OF assms(5-8) n] by (simp add: p)
  then show ?thesis
    using create_entry_new_binary [OF assms(1) _ k assms(3,4), of 1]
    by (simp add: send_result_def binary_manager_send_response_def)
qed

text \<open>
  Claim C9 on a request for the unregistered binary \<open>app\<close>, version 1, with no directory
  and no call that fails, in a task whose lowest free descriptor is 0. The first
  \<^verbatim>\<open>open\<close> fails with \<open>ENOENT\<close>, \<^verbatim>\<open>mkdir\<close> creates the directory, and the second
  \<^verbatim>\<open>open\<close> creates \<open>app_1\<close> and returns the descriptor 0. Line 202 tests \<^verbatim>\<open>fd > 0\<close>, so
  the answer is \<open>BINMGR_OPERATION_FAIL\<close> with no path, though directory and file are
  there; the descriptor is not closed.
\<close>

theorem create_entry_descriptor_zero:
  "binary_manager_create_entry cfg0 5 (Some ''app'') 1 (state0 [] ((fs0 None)\<lparr>next_fd := 0\<rparr>)) =
     (BINMGR_OPERATION_FAIL cfg0,
      \<lparr>registry = [user_slot ''app'' (- 1)], kdata = kdata0 2 0,
       fs = (fs0 (Some [file_entry ''app_1'']))
              \<lparr>next_fd := 1, errno := ENOENT,
               calls := [Open ''/mnt/bins/app_1'', Mkdir ''/mnt/bins'', Open ''/mnt/bins/app_1'']\<rparr>,
       outbox = [(''bm_priv5'', \<lparr>result = BINMGR_OPERATION_FAIL cfg0, binpath = None\<rparr>)]\<rparr>)"
  using create_entry_app_1_descriptor_zero [of 5 cfg0 "state0 [] ((fs0 None)\<lparr>next_fd := 0\<rparr>)"]
  by (simp add: cfg0_def state0_def fs0_def user_slot_def q_name_of_def snprintf_def
      fmt_d_def fmt_u.simps)

subsection \<open>The result codes of a request that passes the test of line 146\<close>

lemma clear_binfile_result:
  "fst (binary_manager_clear_binfile cfg tbl bin_idx f) = BINMGR_OK cfg
   \<or> fst (binary_manager_clear_binfile cfg tbl bin_idx f) = BINMGR_OPERATION_FAIL cfg"
  by (simp add: binary_manager_clear_binfile_def Let_def split: prod.split option.split)

lemma create_entry_valid_result:
  assumes "0 \<le> requester_pid" and "0 \<le> version"
  shows "fst (binary_manager_create_entry cfg requester_pid (Some name) version s)
           \<in> {BINMGR_OK cfg, BINMGR_NOT_FOUND cfg, BINMGR_ALREADY_UPDATED cfg,
               BINMGR_OPERATION_FAIL cfg}"
proof -
  have cf: "result (fst (create_file cfg name version f))
              \<in> {BINMGR_OK cfg, BINMGR_OPERATION_FAIL cfg}" for f
    using create_file_result [of cfg name version f] by auto
  have cl: "fst (binary_manager_clear_binfile cfg tbl i f)
              \<in> {BINMGR_OK cfg, BINMGR_OPERATION_FAIL cfg}" for tbl i f
    using clear_binfile_result [of cfg tbl i f] by auto
  show ?thesis
  proof (cases "strncmp ''kernel'' name (BIN_NAME_MAX cfg) = 0")
    case True
    with assms show ?thesis
      by (simp add: binary_manager_create_entry_def send_result_def Let_def)
  next
    case False
    show ?thesis
    proof (cases "0 \<le> binary_manager_get_index_with_name (registry s) name")
      case found: True
      show ?thesis
      proof (cases "BIN_VER (registry s) (binary_manager_get_index_with_name (registry s) name)
                      = version")
        case True
        with assms False found show ?thesis
          by (simp add: binary_manager_create_entry_def send_result_def Let_def)
      next
        case other: False
        obtain ret f1 where c: "binary_manager_clear_binfile cfg (registry s)
            (binary_manager_get_index_with_name (registry s) name) (fs s) = (ret, f1)"
          by (cases "binary_manager_clear_binfile cfg (registry s)
            (binary_manager_get_index_with_name (registry s) name) (fs s)")
        then have r: "ret \<in> {BINMGR_OK cfg, BINMGR_OPERATION_FAIL cfg}"
          using cl [of "registry s" "binary_manager_get_index_with_name (registry s) name" "fs s"]
          by simp
        show ?thesis
        proof (cases "ret < 0")
          case True
          with assms False found other c r show ?thesis
            by (auto simp: binary_manager_create_entry_def send_result_def Let_def)
        next
          case False
          then have "0 \<le> ret" by simp
          then show ?thesis
            using create_entry_other_version [OF assms \<open>strncmp ''kernel'' name (BIN_NAME_MAX cfg) \<noteq> 0\<close>
                found other c] cf [of f1]
            by (auto simp: send_result_def)
        qed
      qed
    next
      case new: False
      show ?thesis
      proof (cases "register_refused cfg (map slot_name (registry s)) name")
        case True
        with assms False new show ?thesis
          by (simp add: binary_manager_create_entry_def binary_manager_register_ubin_def
              send_result_def Let_def)
      next
        case accepted: False
        from new have "binary_manager_get_index_with_name (registry s) name < 0" by simp
        then show ?thesis
          using create_entry_new_binary [OF assms False _ accepted] cf [of "fs s"]
          by (auto simp: send_result_def)
      qed
    qed
  qed
qed

subsection \<open>Scanning the directory\<close>

lemma get_index_in_range:
  "0 \<le> binary_manager_get_index_with_name tbl n \<Longrightarrow>
   nat (binary_manager_get_index_with_name tbl n) < length tbl
   \<and> BIN_NAME tbl (binary_manager_get_index_with_name tbl n) = n"
proof (induction tbl)
  case Nil
  then show ?case by simp
next
  case (Cons b tbl)
  show ?case
  proof (cases "slot_name b = n")
    case True
    then show ?thesis by (simp add: BIN_NAME_def)
  next
    case False
    with Cons.prems have i: "0 \<le> binary_manager_get_index_with_name tbl n"
      by (simp add: Let_def split: if_splits)
    with Cons.IH have "nat (binary_manager_get_index_with_name tbl n) < length tbl"
      and "slot_name (tbl ! nat (binary_manager_get_index_with_name tbl n)) = n"
      by (simp_all add: BIN_NAME_def)
    with False i show ?thesis
      by (simp add: BIN_NAME_def Let_def nat_add_distrib)
  qed
qed

lemma get_index_neg_iff:
  "binary_manager_get_index_with_name tbl n < 0 \<longleftrightarrow> n \<notin> slot_name ` set tbl"
  by (induction tbl) (auto simp: Let_def)

lemma get_index_nonneg_iff:
  "0 \<le> binary_manager_get_index_with_name tbl n \<longleftrightarrow> n \<in> slot_name ` set tbl"
  using get_index_neg_iff [of tbl n] by linarith

lemma register_ubin_grows:
  "\<exists>new. snd (binary_manager_register_ubin cfg n tbl) = tbl @ new
     \<and> (\<forall>b \<in> set new. slot_name b = n \<and> slot_kind b = User \<and> slot_ver b = fresh_version cfg)
     \<and> (n \<in> slot_name ` set tbl \<longrightarrow> new = [])"
  by (auto simp: binary_manager_register_ubin_def Let_def get_index_nonneg_iff)

lemma register_ubin_distinct:
  assumes "distinct (map slot_name tbl)"
  shows "distinct (map slot_name (snd (binary_manager_register_ubin cfg n tbl)))"
  using assms
  by (auto simp: binary_manager_register_ubin_def Let_def get_index_nonneg_iff)

lemma register_ubin_present:
  assumes "\<not> register_refused cfg (map slot_name tbl) n"
  shows "n \<in> slot_name ` set (snd (binary_manager_register_ubin cfg n tbl))"
  using assms
  by (auto simp: binary_manager_register_ubin_def Let_def get_index_nonneg_iff)

lemma scan_loop_grows:
  "\<exists>new. scan_loop cfg f ents tbl = tbl @ new
     \<and> (\<forall>b \<in> set new. slot_name b \<notin> slot_name ` set tbl
            \<and> slot_kind b = User \<and> slot_ver b = fresh_version cfg)"
proof (induction ents arbitrary: tbl)
  case Nil
  then show ?case by simp
next
  case (Cons entryp rest)
  let ?tbl1 = "if DIRENT_ISFILE (d_type entryp) then
          (case binary_manager_read_header f
                  (snprintf (CONFIG_PATH_MAX cfg) (BINARY_DIR_PATH cfg @ ''/'' @ d_name entryp)) of
             None \<Rightarrow> tbl
           | Some header_data \<Rightarrow>
               snd (binary_manager_register_ubin cfg (bin_name header_data) tbl))
        else tbl"
  have "\<exists>new1. ?tbl1 = tbl @ new1
     \<and> (\<forall>b \<in> set new1. slot_name b \<notin> slot_name ` set tbl
            \<and> slot_kind b = User \<and> slot_ver b = fresh_version cfg)"
  proof (cases "DIRENT_ISFILE (d_type entryp)")
    case False
    then show ?thesis by simp
  next
    case True
    show ?thesis
    proof (cases "binary_manager_read_header f
                  (snprintf (CONFIG_PATH_MAX cfg) (BINARY_DIR_PATH cfg @ ''/'' @ d_name entryp))")
      case None
      with True show ?thesis by simp
    next
      case (Some h)
      obtain new where r1: "snd (binary_manager_register_ubin cfg (bin_name h) tbl) = tbl @ new"
        and r2: "\<forall>b \<in> set new. slot_name b = bin_name h \<and> slot_kind b = User
               \<and> slot_ver b = fresh_version cfg"
        and r3: "bin_name h \<in> slot_name ` set tbl \<longrightarrow> new = []"
        using register_ubin_grows [of cfg "bin_name h" tbl] by blast
      have "?tbl1 = tbl @ new"
        using True Some r1 by simp
      moreover have "\<forall>b \<in> set new. slot_name b \<notin> slot_name ` set tbl
            \<and> slot_kind b = User \<and> slot_ver b = fresh_version cfg"
      proof (cases "bin_name h \<in> slot_name ` set tbl")
        case True
        with r3 show ?thesis by simp
      next
        case False
        with r2 show ?thesis by simp
      qed
      ultimately show ?thesis by blast
    qed
  qed
  then obtain new1 where t1: "?tbl1 = tbl @ new1"
    and n1: "\<forall>b \<in> set new1. slot_name b \<notin> slot_name ` set tbl
            \<and> slot_kind b = User \<and> slot_ver b = fresh_version cfg"
    by blast
  obtain new2 where t2: "scan_loop cfg f rest ?tbl1 = ?tbl1 @ new2"
    and n2: "\<forall>b \<in> set new2. slot_name b \<notin> slot_name ` set ?tbl1
            \<and> slot_kind b = User \<and> slot_ver b = fresh_version cfg"
    using Cons.IH [of ?tbl1] by blast
  have "scan_loop cfg f (entryp # rest) tbl = tbl @ (new1 @ new2)"
    using t1 t2 by simp
  moreover have "\<forall>b \<in> set (new1 @ new2). slot_name b \<notin> slot_name ` set tbl
            \<and> slot_kind b = User \<and> slot_ver b = fresh_version cfg"
    using n1 n2 t1 by auto
  ultimately show ?case by blast
qed

lemma scan_loop_distinct:
  "distinct (map slot_name tbl) \<Longrightarrow> distinct (map slot_name (scan_loop cfg f ents tbl))"
  by (induction ents arbitrary: tbl) (auto simp: register_ubin_distinct split: option.splits)

lemma scan_loop_mono:
  "b \<in> set tbl \<Longrightarrow> b \<in> set (scan_loop cfg f ents tbl)"
  using scan_loop_grows [of cfg f ents tbl] by auto

lemma register_ubin_succeeds:
  assumes "0 \<le> fst (binary_manager_register_ubin cfg n tbl)"
  shows "n \<in> slot_name ` set (snd (binary_manager_register_ubin cfg n tbl))"
  using assms
  by (auto simp: binary_manager_register_ubin_def Let_def get_index_nonneg_iff
      split: if_splits)

lemma register_ubin_refused:
  assumes "binary_manager_get_index_with_name tbl n < 0"
    and "register_refused cfg (map slot_name tbl) n"
  shows "binary_manager_register_ubin cfg n tbl = (- 1, tbl)"
  using assms by (simp add: binary_manager_register_ubin_def)

lemma scan_loop_append:
  "scan_loop cfg f (xs @ ys) tbl = scan_loop cfg f ys (scan_loop cfg f xs tbl)"
  by (induction xs arbitrary: tbl) simp_all

text \<open>
  The file \<open>entryp\<close> is reached with the table the entries before it have built. When
  the call of line 120 for it does not fail, the binary its header names is in the table
  at the end of the loop.
\<close>

lemma scan_loop_registers:
  assumes "ents = pre @ entryp # post" and "DIRENT_ISFILE (d_type entryp)"
    and "binary_manager_read_header f
           (snprintf (CONFIG_PATH_MAX cfg) (BINARY_DIR_PATH cfg @ ''/'' @ d_name entryp))
         = Some header_data"
    and "0 \<le> fst (binary_manager_register_ubin cfg (bin_name header_data)
                     (scan_loop cfg f pre tbl))"
  shows "bin_name header_data \<in> slot_name ` set (scan_loop cfg f ents tbl)"
proof -
  let ?tbl1 = "scan_loop cfg f pre tbl"
  let ?tbl2 = "snd (binary_manager_register_ubin cfg (bin_name header_data) ?tbl1)"
  have "scan_loop cfg f ents tbl = scan_loop cfg f post ?tbl2"
    using assms(1-3) by (simp add: scan_loop_append)
  moreover obtain b where "b \<in> set ?tbl2" and "slot_name b = bin_name header_data"
    using register_ubin_succeeds [OF assms(4)] by auto
  ultimately show ?thesis
    using scan_loop_mono [of b ?tbl2 cfg f post] by force
qed

lemma scan_loop_headers_cong:
  assumes "\<And>p. map_option bin_name (headers f p) = map_option bin_name (headers f' p)"
  shows "scan_loop cfg f ents tbl = scan_loop cfg f' ents tbl"
proof (induction ents arbitrary: tbl)
  case Nil
  then show ?case by simp
next
  case (Cons entryp rest)
  let ?p = "snprintf (CONFIG_PATH_MAX cfg) (BINARY_DIR_PATH cfg @ ''/'' @ d_name entryp)"
  have "(case headers f ?p of None \<Rightarrow> tbl
         | Some h \<Rightarrow> snd (binary_manager_register_ubin cfg (bin_name h) tbl))
      = (case headers f' ?p of None \<Rightarrow> tbl
         | Some h \<Rightarrow> snd (binary_manager_register_ubin cfg (bin_name h) tbl))"
    using assms [of ?p] by (auto split: option.splits)
  then show ?case
    using Cons.IH by (simp add: binary_manager_read_header_def)
qed


lemma scan_ubin_opened:
  assumes "store (fs s) = Some ents" and "opendir_fault (fs s) = None"
  shows "binary_manager_scan_ubin cfg s =
           s\<lparr>registry :=
                 scan_loop cfg ((fs s)\<lparr>calls := calls (fs s) @ [Opendir (BINARY_DIR_PATH cfg)]\<rparr>)
                   ents (registry s),
             fs := (fs s)\<lparr>calls := calls (fs s) @ [Opendir (BINARY_DIR_PATH cfg)]\<rparr>\<rparr>"
  using assms by (simp add: binary_manager_scan_ubin_def sys_opendir_ok)

lemma scan_ubin_as_loop:
  "\<exists>f ents. registry (binary_manager_scan_ubin cfg s) = scan_loop cfg f ents (registry s)"
proof (cases "sys_opendir cfg (BINARY_DIR_PATH cfg) (fs s)")
  case (Pair r f)
  show ?thesis
  proof (cases r)
    case None
    with Pair have "registry (binary_manager_scan_ubin cfg s) = scan_loop cfg f [] (registry s)"
      by (simp add: binary_manager_scan_ubin_def)
    then show ?thesis by blast
  next
    case (Some ents)
    with Pair have "registry (binary_manager_scan_ubin cfg s) = scan_loop cfg f ents (registry s)"
      by (simp add: binary_manager_scan_ubin_def)
    then show ?thesis by blast
  qed
qed

lemma scan_ubin_grows:
  "\<exists>new. registry (binary_manager_scan_ubin cfg s) = registry s @ new"
  using scan_ubin_as_loop [of cfg s] scan_loop_grows by metis

lemma scan_ubin_distinct:
  "distinct (map slot_name (registry s)) \<Longrightarrow>
   distinct (map slot_name (registry (binary_manager_scan_ubin cfg s)))"
  using scan_ubin_as_loop [of cfg s] scan_loop_distinct by metis

lemma scan_loop_fs:
  "scan_loop cfg (f\<lparr>calls := cs\<rparr>) ents tbl = scan_loop cfg f ents tbl"
  by (rule scan_loop_headers_cong) simp

lemma scan_ubin_registers:
  assumes "store (fs s) = Some ents" and "opendir_fault (fs s) = None"
    and "ents = pre @ entryp # post" and "DIRENT_ISFILE (d_type entryp)"
    and "binary_manager_read_header (fs s)
           (snprintf (CONFIG_PATH_MAX cfg) (BINARY_DIR_PATH cfg @ ''/'' @ d_name entryp))
         = Some header_data"
    and "0 \<le> fst (binary_manager_register_ubin cfg (bin_name header_data)
                     (scan_loop cfg (fs s) pre (registry s)))"
  shows "bin_name header_data \<in> slot_name ` set (registry (binary_manager_scan_ubin cfg s))"
proof -
  have "bin_name header_data \<in> slot_name ` set (scan_loop cfg (fs s) ents (registry s))"
    using assms(3-6) by (rule scan_loop_registers)
  then show ?thesis
    by (simp add: scan_ubin_opened [OF assms(1,2)] scan_loop_fs)
qed

lemma count_one:
  assumes "distinct (map slot_name tbl)" and "n \<in> slot_name ` set tbl"
  shows "length (filter (\<lambda>b. slot_name b = n) tbl) = 1"
  using assms
proof (induction tbl)
  case Nil
  then show ?case by simp
next
  case (Cons b tbl)
  show ?case
  proof (cases "slot_name b = n")
    case True
    with Cons.prems(1) have "n \<notin> slot_name ` set tbl"
      by simp
    then have "filter (\<lambda>b. slot_name b = n) tbl = []"
      unfolding filter_empty_conv by blast
    with True show ?thesis by simp
  next
    case False
    with Cons show ?thesis by auto
  qed
qed

lemma scan_ubin_fs:
  "store (fs (binary_manager_scan_ubin cfg s)) = store (fs s)"
  "opendir_fault (fs (binary_manager_scan_ubin cfg s)) = opendir_fault (fs s)"
  "headers (fs (binary_manager_scan_ubin cfg s)) = headers (fs s)"
  by (simp_all add: binary_manager_scan_ubin_def sys_opendir_def sys_log_def sys_fail_def Let_def
      split: option.split)

lemma count_le_one:
  assumes "distinct (map slot_name tbl)"
  shows "length (filter (\<lambda>b. slot_name b = n) tbl) \<le> 1"
proof (cases "n \<in> slot_name ` set tbl")
  case True
  with assms show ?thesis by (simp add: count_one)
next
  case False
  then have "filter (\<lambda>b. slot_name b = n) tbl = []"
    unfolding filter_empty_conv by blast
  then show ?thesis by simp
qed



text \<open>
  Claim C7, as the source has it. \<^verbatim>\<open>binary_manager_scan_ubin\<close> only appends to the
  binary table: the table after one scan, and after two, is the table before with new
  slots at its end, so every slot that was there is still there, at its index and
  unchanged. Names that were unique stay unique: no binary is in the table more than
  once, however many files name it. A binary that a parsed header names is in the table
  exactly once, after one scan and after two, when the call of line 120 for that file
  does not fail; the source ignores the result of the call, and a binary whose
  registration fails is not in the table.
\<close>

theorem scan_ubin_additive:
  "(\<exists>new. registry (binary_manager_scan_ubin cfg s) = registry s @ new)
   \<and> (\<exists>new. registry (binary_manager_scan_ubin cfg (binary_manager_scan_ubin cfg s))
              = registry s @ new)
   \<and> (distinct (map slot_name (registry s)) \<longrightarrow>
        distinct (map slot_name (registry (binary_manager_scan_ubin cfg s)))
        \<and> distinct (map slot_name
             (registry (binary_manager_scan_ubin cfg (binary_manager_scan_ubin cfg s))))
        \<and> length (filter (\<lambda>b. slot_name b = n)
                    (registry (binary_manager_scan_ubin cfg s))) \<le> 1
        \<and> length (filter (\<lambda>b. slot_name b = n)
                    (registry (binary_manager_scan_ubin cfg (binary_manager_scan_ubin cfg s))))
            \<le> 1)
   \<and> (distinct (map slot_name (registry s))
        \<and> store (fs s) = Some (pre @ entryp # post) \<and> opendir_fault (fs s) = None
        \<and> DIRENT_ISFILE (d_type entryp)
        \<and> binary_manager_read_header (fs s)
             (snprintf (CONFIG_PATH_MAX cfg) (BINARY_DIR_PATH cfg @ ''/'' @ d_name entryp))
           = Some header_data
        \<and> 0 \<le> fst (binary_manager_register_ubin cfg (bin_name header_data)
                      (scan_loop cfg (fs s) pre (registry s))) \<longrightarrow>
          length (filter (\<lambda>b. slot_name b = bin_name header_data)
                    (registry (binary_manager_scan_ubin cfg s))) = 1
        \<and> length (filter (\<lambda>b. slot_name b = bin_name header_data)
                    (registry (binary_manager_scan_ubin cfg (binary_manager_scan_ubin cfg s))))
            = 1)"
proof -
  let ?s1 = "binary_manager_scan_ubin cfg s"
  let ?s2 = "binary_manager_scan_ubin cfg ?s1"
  obtain new1 where g1: "registry ?s1 = registry s @ new1"
    using scan_ubin_grows by blast
  obtain new2 where g2: "registry ?s2 = registry ?s1 @ new2"
    using scan_ubin_grows by blast
  have g12: "registry ?s2 = registry s @ (new1 @ new2)"
    using g1 g2 by simp
  have d: "distinct (map slot_name (registry ?s1)) \<and> distinct (map slot_name (registry ?s2))"
    if "distinct (map slot_name (registry s))"
    using that by (simp add: scan_ubin_distinct)
  have most: "distinct (map slot_name (registry ?s1))
        \<and> distinct (map slot_name (registry ?s2))
        \<and> length (filter (\<lambda>b. slot_name b = n) (registry ?s1)) \<le> 1
        \<and> length (filter (\<lambda>b. slot_name b = n) (registry ?s2)) \<le> 1"
    if "distinct (map slot_name (registry s))"
    using d [OF that] count_le_one [of "registry ?s1" n] count_le_one [of "registry ?s2" n]
    by blast
  have once: "length (filter (\<lambda>b. slot_name b = bin_name header_data) (registry ?s1)) = 1
       \<and> length (filter (\<lambda>b. slot_name b = bin_name header_data) (registry ?s2)) = 1"
    if u: "distinct (map slot_name (registry s))"
      and r: "store (fs s) = Some (pre @ entryp # post)" "opendir_fault (fs s) = None"
      and e: "DIRENT_ISFILE (d_type entryp)"
      "binary_manager_read_header (fs s)
               (snprintf (CONFIG_PATH_MAX cfg) (BINARY_DIR_PATH cfg @ ''/'' @ d_name entryp))
             = Some header_data"
      "0 \<le> fst (binary_manager_register_ubin cfg (bin_name header_data)
                      (scan_loop cfg (fs s) pre (registry s)))"
  proof -
    have m1: "bin_name header_data \<in> slot_name ` set (registry ?s1)"
      using r refl e by (rule scan_ubin_registers)
    then have m2: "bin_name header_data \<in> slot_name ` set (registry ?s2)"
      using g2 by auto
    show ?thesis
      using count_one [OF _ m1] count_one [OF _ m2] d [OF u] by simp
  qed
  show ?thesis
    using g1 g12 most once by blast
qed

theorem scan_ubin_additive_witness:
  "registry (binary_manager_scan_ubin (cfg_cap 2) (state0 [user_slot ''b'' 7] fs_a12))
     = [user_slot ''b'' 7, user_slot ''a'' (- 1)]
   \<and> registry (binary_manager_scan_ubin (cfg_cap 2)
        (binary_manager_scan_ubin (cfg_cap 2) (state0 [user_slot ''b'' 7] fs_a12)))
     = [user_slot ''b'' 7, user_slot ''a'' (- 1)]
   \<and> length (filter (\<lambda>b. slot_name b = ''a'')
        (registry (binary_manager_scan_ubin (cfg_cap 2) (state0 [user_slot ''b'' 7] fs_a12)))) = 1"
  using scan_ubin_additive [where s = "state0 [user_slot ''b'' 7] fs_a12"
      and cfg = "cfg_cap 2" and pre = "[]" and entryp = "file_entry ''a_1''"
      and post = "[file_entry ''a_2'']"
      and header_data = "\<lparr>bin_name = ''a'', bin_ver = 1\<rparr>" and n = "''a''"]
  by (simp add: cfg_cap_def cfg0_def state0_def fs_a12_def fs0_def file_entry_def user_slot_def
      binary_manager_scan_ubin_def sys_opendir_def sys_log_def sys_fail_def
      binary_manager_read_header_def binary_manager_register_ubin_def snprintf_def
      DIRENT_ISFILE_def Let_def)

text \<open>
  A table of one slot that holds the binary \<open>b\<close>, and the files \<open>a_1\<close> and \<open>a_2\<close> of
  the binary \<open>a\<close>: both registrations are refused, and \<open>a\<close> is not in the table after
  the scan.
\<close>

theorem scan_ubin_full_table_counterexample:
  "binary_manager_read_header fs_a12 ''/mnt/bins/a_1'' = Some \<lparr>bin_name = ''a'', bin_ver = 1\<rparr>
   \<and> binary_manager_read_header fs_a12 ''/mnt/bins/a_2'' = Some \<lparr>bin_name = ''a'', bin_ver = 2\<rparr>
   \<and> registry (binary_manager_scan_ubin (cfg_cap 1) (state0 [user_slot ''b'' 7] fs_a12))
     = [user_slot ''b'' 7]
   \<and> length (filter (\<lambda>b. slot_name b = ''a'')
        (registry (binary_manager_scan_ubin (cfg_cap 1) (state0 [user_slot ''b'' 7] fs_a12)))) = 0"
  by code_simp

text \<open>
  Claim C6, as the source has it. For a regular file of the directory whose header
  parses and names a binary that is not in the table, the table after the scan has a
  slot of that name, of kind User, when the call of line 120 for that file does not
  fail. Line 120 hands \<^verbatim>\<open>binary_manager_register_ubin\<close> the name only: the version of
  the slot is the one every new slot gets, and the table after the scan is the same
  whatever version the headers carry.
\<close>

theorem scan_ubin_registers_name:
  assumes "store (fs s) = Some (pre @ entryp # post)" and "opendir_fault (fs s) = None"
    and "DIRENT_ISFILE (d_type entryp)"
    and "binary_manager_read_header (fs s)
           (snprintf (CONFIG_PATH_MAX cfg) (BINARY_DIR_PATH cfg @ ''/'' @ d_name entryp))
         = Some header_data"
    and "binary_manager_get_index_with_name (registry s) (bin_name header_data) < 0"
    and "0 \<le> fst (binary_manager_register_ubin cfg (bin_name header_data)
                     (scan_loop cfg (fs s) pre (registry s)))"
  shows "(\<exists>b \<in> set (registry (binary_manager_scan_ubin cfg s)).
            slot_name b = bin_name header_data \<and> slot_kind b = User
            \<and> slot_ver b = fresh_version cfg)
       \<and> registry (binary_manager_scan_ubin cfg
            (s\<lparr>fs := (fs s)\<lparr>headers :=
                  (\<lambda>p. map_option (\<lambda>h. h\<lparr>bin_ver := v\<rparr>) (headers (fs s) p))\<rparr>\<rparr>))
         = registry (binary_manager_scan_ubin cfg s)"
proof -
  let ?ents = "pre @ entryp # post"
  let ?f = "(fs s)\<lparr>calls := calls (fs s) @ [Opendir (BINARY_DIR_PATH cfg)]\<rparr>"
  have eq: "registry (binary_manager_scan_ubin cfg s) = scan_loop cfg ?f ?ents (registry s)"
    by (simp add: scan_ubin_opened [OF assms(1,2)])
  obtain new where n1: "scan_loop cfg ?f ?ents (registry s) = registry s @ new"
    and n2: "\<forall>b \<in> set new. slot_name b \<notin> slot_name ` set (registry s)
            \<and> slot_kind b = User \<and> slot_ver b = fresh_version cfg"
    using scan_loop_grows [of cfg ?f ?ents "registry s"] by blast
  have "bin_name header_data \<in> slot_name ` set (registry (binary_manager_scan_ubin cfg s))"
    using assms(1,2) refl assms(3,4,6) by (rule scan_ubin_registers)
  moreover have "bin_name header_data \<notin> slot_name ` set (registry s)"
    using assms(5) by (simp add: get_index_neg_iff)
  ultimately obtain b where "b \<in> set new" and "slot_name b = bin_name header_data"
    using eq n1 by auto
  then have first: "\<exists>b \<in> set (registry (binary_manager_scan_ubin cfg s)).
            slot_name b = bin_name header_data \<and> slot_kind b = User
            \<and> slot_ver b = fresh_version cfg"
    using n2 eq n1 by auto
  let ?s' = "s\<lparr>fs := (fs s)\<lparr>headers :=
                  (\<lambda>p. map_option (\<lambda>h. h\<lparr>bin_ver := v\<rparr>) (headers (fs s) p))\<rparr>\<rparr>"
  let ?f' = "(fs ?s')\<lparr>calls := calls (fs ?s') @ [Opendir (BINARY_DIR_PATH cfg)]\<rparr>"
  have "registry (binary_manager_scan_ubin cfg ?s') = scan_loop cfg ?f' ?ents (registry ?s')"
    using assms(1,2) by (simp add: scan_ubin_opened)
  also have "\<dots> = scan_loop cfg ?f ?ents (registry s)"
  proof -
    have "scan_loop cfg ?f' ?ents (registry s) = scan_loop cfg ?f ?ents (registry s)"
      by (rule scan_loop_headers_cong) (simp add: option.map_comp comp_def)
    then show ?thesis by simp
  qed
  finally show ?thesis
    using first eq by simp
qed

theorem scan_ubin_registers_name_witness:
  "(\<exists>b \<in> set (registry (binary_manager_scan_ubin (cfg_cap 2)
            (state0 [user_slot ''b'' 7] (fs_hdr 3)))).
      slot_name b = ''a'' \<and> slot_kind b = User \<and> slot_ver b = - 1)
   \<and> registry (binary_manager_scan_ubin (cfg_cap 2) (state0 [user_slot ''b'' 7] (fs_hdr 3)))
     = [user_slot ''b'' 7, user_slot ''a'' (- 1)]"
  using scan_ubin_registers_name [where s = "state0 [user_slot ''b'' 7] (fs_hdr 3)"
      and cfg = "cfg_cap 2" and pre = "[]" and entryp = "file_entry ''a_1''" and post = "[]"
      and header_data = "\<lparr>bin_name = ''a'', bin_ver = 3\<rparr>" and v = 4]
  by (simp add: cfg_cap_def cfg0_def state0_def fs_hdr_def fs0_def file_entry_def user_slot_def
      binary_manager_scan_ubin_def sys_opendir_def sys_log_def sys_fail_def
      binary_manager_read_header_def binary_manager_register_ubin_def snprintf_def
      DIRENT_ISFILE_def Let_def)

text \<open>
  The header of \<open>a_1\<close> carries version 3, or 4; the slot registered has version -1 both
  times.
\<close>

theorem scan_ubin_version_counterexample:
  "binary_manager_read_header (fs_hdr 3) ''/mnt/bins/a_1'' = Some \<lparr>bin_name = ''a'', bin_ver = 3\<rparr>
   \<and> registry (binary_manager_scan_ubin cfg0 (state0 [] (fs_hdr 3))) = [user_slot ''a'' (- 1)]
   \<and> binary_manager_read_header (fs_hdr 4) ''/mnt/bins/a_1'' = Some \<lparr>bin_name = ''a'', bin_ver = 4\<rparr>
   \<and> registry (binary_manager_scan_ubin cfg0 (state0 [] (fs_hdr 4))) = [user_slot ''a'' (- 1)]"
  by code_simp

end
